theory Spec2Isabelle
  imports Complex_Main "HOL-Library.AList"
begin

section \<open>Data model\<close>

text \<open>
  A map character (\<open>$gamePlayer\<close>, a follower, a map event): the plugin reads its tile
  coordinates and, on enemy events, the cached \<open>_roaEnemyType\<close> tag (absent on every
  other character).  JavaScript numbers are modelled as unbounded integers.
\<close>

record character =
  posx :: int
  posy :: int
  roaEnemyType :: "string option"

text \<open>The plugin parameters \<open>CFG\<close> (lines 122-139).\<close>

record CFG =
  enabledG :: bool
  thinkInterval :: int
  enemyScanInterval :: int
  defaultAggro :: int
  defaultLeash :: int
  defaultPreferredRange :: int
  defaultKeepDistance :: int
  defaultProtectRadius :: int
  healerHealThreshold :: int
  healerCriticalThreshold :: int
  healerBuffWindowFrames :: int

text \<open>
  A database actor as far as the plugin looks at it: \<open>isDead()\<close>, \<open>hpRate()\<close> and the
  values of its \<open>ChronoAI\<close> note tags as \<open>parseTagBool\<close> and \<open>parseTagValue\<close> return them
  (\<open>None\<close> for a tag that is absent; numeric tags already read as numbers).
\<close>

record actor =
  isDead :: bool
  hpRate :: rat
  tagChronoAI :: "bool option"
  tagRole :: "string option"
  tagStance :: "string option"
  tagAggro :: "int option"
  tagLeash :: "int option"
  tagPreferredRange :: "int option"
  tagKeepDistance :: "int option"
  tagProtectRadius :: "int option"
  tagToolAttack :: "int option"
  tagToolDefend :: "int option"
  tagToolHeal :: "int option"
  tagToolBuff :: "int option"

text \<open>The per-actor configuration object built by \<open>actorAiConfig\<close>.\<close>

record cfg =
  enabled :: bool
  role :: string
  stance :: string
  aggro :: int
  leash :: int
  preferredRange :: int
  keepDistance :: int
  protectRadius :: int
  toolAttack :: int
  toolDefend :: int
  toolHeal :: int
  toolBuff :: int

text \<open>
  What the engine and the Chrono adapter report during one frame.  Enemy events are
  objects the Blackboard keeps references to: a reference is an event id, and
  \<open>mapEvents\<close> gives the live state of the referenced event in this frame.
  \<open>partyLeader\<close> is \<open>$gameParty.leader()\<close>, \<open>partyActorIds\<close> is
  \<open>Manager.partyActorIds()\<close>, \<open>gameActors\<close> is \<open>$gameActors.actor\<close>, and
  \<open>movedToward a b\<close> is character \<open>a\<close> after the engine has executed
  \<open>a.moveTowardCharacter(b)\<close>.  \<open>enemyCharacters\<close> and \<open>characterForActorId\<close> are the
  results of the adapter functions of these names; they depend on the engine's event and
  follower lists and on the body mode (the compatibility bridge replaces
  \<open>characterForActorId\<close> by a lookup among the map's player characters), so the model
  takes them as given.
\<close>

record world =
  gamePlayer :: character
  mapEvents :: "nat \<Rightarrow> character"
  enemyCharacters :: "nat list"
  partyActorIds :: "nat list"
  partyLeader :: "nat option"
  gameActors :: "nat \<Rightarrow> actor option"
  characterForActorId :: "nat \<Rightarrow> character option"
  movedToward :: "character \<Rightarrow> character \<Rightarrow> character"

record blackboard =
  frame :: int
  enemyScanCd :: int
  enemies :: "nat list"
  combatActive :: bool
  combatStartFrame :: int

datatype fsm = FOLLOW | ACQUIRE | ACT | RECOVER | HOLD

record controller =
  actorId :: nat
  ccfg :: cfg
  thinkCd :: int
  state :: fsm
  target :: "nat option"
  buffedThisCombat :: "nat set"
  buffQueue :: "nat list"
  combatStartFrameSeen :: int

text \<open>
  The calls a Controller makes on the adapter, in the order it makes them: the movement
  helpers with both characters present, and \<open>tryUseTool\<close> with a character and a
  non-zero tool id.
\<close>

datatype intent =
    MoveToward character character
  | MoveAway character character
  | Sidestep character character
  | UseTool character int int

section \<open>Chrono adapter helpers\<close>

definition distTiles :: "character option \<Rightarrow> character option \<Rightarrow> int" where
  "distTiles a b =
     (case a of
        None \<Rightarrow> 9999
      | Some p \<Rightarrow>
          (case b of
             None \<Rightarrow> 9999
           | Some q \<Rightarrow> \<bar>posx p - posx q\<bar> + \<bar>posy p - posy q\<bar>))"

definition moveToward :: "character option \<Rightarrow> character option \<Rightarrow> intent list" where
  "moveToward ch targetChar =
     (case ch of
        None \<Rightarrow> []
      | Some a \<Rightarrow> (case targetChar of None \<Rightarrow> [] | Some b \<Rightarrow> [MoveToward a b]))"

definition moveAway :: "character option \<Rightarrow> character option \<Rightarrow> intent list" where
  "moveAway ch targetChar =
     (case ch of
        None \<Rightarrow> []
      | Some a \<Rightarrow> (case targetChar of None \<Rightarrow> [] | Some b \<Rightarrow> [MoveAway a b]))"

definition sidestep :: "character option \<Rightarrow> character option \<Rightarrow> intent list" where
  "sidestep ch targetChar =
     (case ch of
        None \<Rightarrow> []
      | Some a \<Rightarrow> (case targetChar of None \<Rightarrow> [] | Some b \<Rightarrow> [Sidestep a b]))"

definition tryUseTool :: "character option \<Rightarrow> int \<Rightarrow> int \<Rightarrow> intent list" where
  "tryUseTool userChar toolId commandType =
     (case userChar of
        None \<Rightarrow> []
      | Some a \<Rightarrow> (if toolId = 0 then [] else [UseTool a toolId commandType]))"

section \<open>Blackboard\<close>

definition new_Blackboard :: blackboard where
  "new_Blackboard =
     \<lparr>frame = 0, enemyScanCd = 0, enemies = [], combatActive = False, combatStartFrame = 0\<rparr>"

text \<open>\<open>Blackboard.update\<close> (lines 368-389).\<close>

definition Blackboard_update :: "CFG \<Rightarrow> world \<Rightarrow> blackboard \<Rightarrow> blackboard" where
  "Blackboard_update G w bb =
     (let b1 = bb\<lparr>frame := frame bb + 1\<rparr>;
          b2 = (if enemyScanCd b1 \<le> 0
                then b1\<lparr>enemyScanCd := enemyScanInterval G, enemies := enemyCharacters w\<rparr>
                else b1\<lparr>enemyScanCd := enemyScanCd b1 - 1\<rparr>);
          active = list_ex
            (\<lambda>e. distTiles (Some (gamePlayer w)) (Some (mapEvents w e)) \<le> defaultAggro G)
            (enemies b2)
      in if active \<and> \<not> combatActive b2
         then b2\<lparr>combatActive := True, combatStartFrame := frame b2\<rparr>
         else if \<not> active then b2\<lparr>combatActive := False\<rparr>
         else b2)"

section \<open>Actor configuration\<close>

text \<open>\<open>String.prototype.toUpperCase\<close> on ASCII text.\<close>

definition upperChar :: "char \<Rightarrow> char" where
  "upperChar c =
     (case map_of (zip ''abcdefghijklmnopqrstuvwxyz'' ''ABCDEFGHIJKLMNOPQRSTUVWXYZ'') c of
        None \<Rightarrow> c
      | Some u \<Rightarrow> u)"

definition toUpperCase :: "string \<Rightarrow> string" where
  "toUpperCase s = map upperChar s"

text \<open>\<open>s || d\<close> on a string that may be absent: the empty string is falsy.\<close>

definition orElse :: "string option \<Rightarrow> string \<Rightarrow> string" where
  "orElse s d = (case s of None \<Rightarrow> d | Some v \<Rightarrow> if v = [] then d else v)"

text \<open>\<open>Number(tag || d)\<close> on a numeric tag that may be absent.\<close>

definition numberOr :: "int option \<Rightarrow> int \<Rightarrow> int" where
  "numberOr t d = (case t of None \<Rightarrow> d | Some n \<Rightarrow> n)"

text \<open>\<open>actorAiConfig\<close> (lines 166-189).\<close>

definition actorAiConfig :: "CFG \<Rightarrow> actor \<Rightarrow> cfg" where
  "actorAiConfig G a =
     (let en = (case tagChronoAI a of None \<Rightarrow> False | Some b \<Rightarrow> b);
          rl = toUpperCase (orElse (tagRole a) []);
          st = toUpperCase (orElse (tagStance a) ''AGGRESSIVE'')
      in \<lparr>enabled = en,
          role = (if rl = [] then ''MELEE'' else rl),
          stance = st,
          aggro = numberOr (tagAggro a) (defaultAggro G),
          leash = numberOr (tagLeash a) (defaultLeash G),
          preferredRange = numberOr (tagPreferredRange a) (defaultPreferredRange G),
          keepDistance = numberOr (tagKeepDistance a) (defaultKeepDistance G),
          protectRadius = numberOr (tagProtectRadius a) (defaultProtectRadius G),
          toolAttack = numberOr (tagToolAttack a) 0,
          toolDefend = numberOr (tagToolDefend a) 0,
          toolHeal = numberOr (tagToolHeal a) 0,
          toolBuff = numberOr (tagToolBuff a) 0\<rparr>)"

text \<open>
  The role string as \<open>actTank\<close> and \<open>buildHealerBuffQueue\<close> read it from a party
  member's note: \<open>String(c.role || "MELEE").toUpperCase()\<close>, with no check against
  \<open>Roles\<close>.
\<close>

definition rawRole :: "cfg \<Rightarrow> string" where
  "rawRole c = toUpperCase (if role c = [] then ''MELEE'' else role c)"

section \<open>Controller\<close>

text \<open>
  The constructor (lines 409-422); \<open>rnd\<close> is the value \<open>Math.random()\<close> returns,
  taken as an exact rational.
\<close>

definition new_Controller :: "CFG \<Rightarrow> rat \<Rightarrow> nat \<Rightarrow> cfg \<Rightarrow> controller" where
  "new_Controller G rnd aid c =
     \<lparr>actorId = aid, ccfg = c, thinkCd = \<lfloor>rnd * of_int (thinkInterval G)\<rfloor>,
      state = FOLLOW, target = None, buffedThisCombat = {}, buffQueue = [],
      combatStartFrameSeen = 0\<rparr>"

definition char_of_controller :: "world \<Rightarrow> controller \<Rightarrow> character option" where
  "char_of_controller w c = characterForActorId w (actorId c)"

definition actor_of_controller :: "world \<Rightarrow> controller \<Rightarrow> actor option" where
  "actor_of_controller w c = gameActors w (actorId c)"

text \<open>\<open>Controller.role\<close> (lines 427-430).\<close>

definition Controller_role :: "controller \<Rightarrow> string" where
  "Controller_role c =
     (let r = rawRole (ccfg c)
      in if r = ''RANGED'' \<or> r = ''MELEE'' \<or> r = ''TANK'' \<or> r = ''HEALER'' then r
         else ''MELEE'')"

subsection \<open>Target picking\<close>

fun nearestInPool_loop ::
  "world \<Rightarrow> character option \<Rightarrow> nat list \<Rightarrow> nat option \<Rightarrow> int \<Rightarrow> nat option" where
  "nearestInPool_loop w ch [] best bestD = best"
| "nearestInPool_loop w ch (e # es) best bestD =
     (let d = distTiles ch (Some (mapEvents w e))
      in if d < bestD then nearestInPool_loop w ch es (Some e) d
         else nearestInPool_loop w ch es best bestD)"

text \<open>\<open>nearestInPool\<close> (lines 555-563).\<close>

definition nearestInPool :: "world \<Rightarrow> character option \<Rightarrow> nat list \<Rightarrow> nat option" where
  "nearestInPool w ch pool = nearestInPool_loop w ch pool None 9999"

text \<open>\<open>pickTarget\<close> (lines 539-553).\<close>

definition pickTarget :: "world \<Rightarrow> blackboard \<Rightarrow> controller \<Rightarrow> string \<Rightarrow> nat option" where
  "pickTarget w bb c rl =
     (let ch = char_of_controller w c;
          es = enemies bb
      in if es = [] then None
         else if rl = ''RANGED''
         then (let ranged = filter (\<lambda>e. roaEnemyType (mapEvents w e) = Some ''RANGED'') es;
                   pool = (if ranged \<noteq> [] then ranged else es)
               in nearestInPool w ch pool)
         else nearestInPool w ch es)"

subsection \<open>States\<close>

text \<open>\<open>thinkFollow\<close> (lines 471-488).\<close>

definition thinkFollow :: "world \<Rightarrow> blackboard \<Rightarrow> controller \<Rightarrow> controller \<times> intent list" where
  "thinkFollow w bb c =
     (if stance (ccfg c) = ''HOLD'' then (c\<lparr>state := HOLD\<rparr>, [])
      else if combatActive bb then (c\<lparr>state := ACQUIRE\<rparr>, [])
      else (let ch = char_of_controller w c;
                d = distTiles ch (Some (gamePlayer w))
            in (c, if d > 2 then moveToward ch (Some (gamePlayer w)) else [])))"

text \<open>\<open>thinkHold\<close> (lines 490-499).\<close>

definition thinkHold :: "world \<Rightarrow> blackboard \<Rightarrow> controller \<Rightarrow> controller \<times> intent list" where
  "thinkHold w bb c =
     (let ch = char_of_controller w c
      in case List.find (\<lambda>e. distTiles ch (Some (mapEvents w e)) \<le> 3) (enemies bb) of
           Some close \<Rightarrow> (c\<lparr>target := Some close, state := ACT\<rparr>, [])
         | None \<Rightarrow> (c, []))"

text \<open>
  \<open>thinkRecover\<close> (lines 501-507): the distance is read after the move has been
  executed.
\<close>

definition thinkRecover :: "world \<Rightarrow> controller \<Rightarrow> controller \<times> intent list" where
  "thinkRecover w c =
     (let ch = char_of_controller w c;
          moved = map_option (\<lambda>a. movedToward w a (gamePlayer w)) ch
      in ((if distTiles moved (Some (gamePlayer w)) \<le> 3
           then c\<lparr>state := (if stance (ccfg c) = ''HOLD'' then HOLD else FOLLOW)\<rparr>
           else c),
          moveToward ch (Some (gamePlayer w))))"

text \<open>\<open>thinkAcquire\<close> (lines 509-525).\<close>

definition thinkAcquire :: "world \<Rightarrow> blackboard \<Rightarrow> controller \<Rightarrow> controller \<times> intent list" where
  "thinkAcquire w bb c =
     (let rl = Controller_role c
      in if rl = ''HEALER'' then (c\<lparr>state := ACT\<rparr>, [])
         else (case pickTarget w bb c rl of
                 None \<Rightarrow> (c\<lparr>state := (if stance (ccfg c) = ''HOLD'' then HOLD else FOLLOW)\<rparr>, [])
               | Some t \<Rightarrow> (c\<lparr>target := Some t, state := ACT\<rparr>, [])))"

subsection \<open>Role actions\<close>

text \<open>\<open>this._target || this.pickTarget(role)\<close>.\<close>

definition targetOrPick :: "world \<Rightarrow> blackboard \<Rightarrow> controller \<Rightarrow> string \<Rightarrow> nat option" where
  "targetOrPick w bb c rl = (case target c of Some t \<Rightarrow> Some t | None \<Rightarrow> pickTarget w bb c rl)"

text \<open>\<open>if (this.cfg.toolAttack > 0) ChronoCompat.tryUseTool(ch, this.cfg.toolAttack, 0)\<close>.\<close>

definition fireAttack :: "character option \<Rightarrow> controller \<Rightarrow> intent list" where
  "fireAttack ch c =
     (if toolAttack (ccfg c) > 0 then tryUseTool ch (toolAttack (ccfg c)) 0 else [])"

text \<open>\<open>actRanged\<close> (lines 568-590).\<close>

definition actRanged :: "world \<Rightarrow> blackboard \<Rightarrow> controller \<Rightarrow> controller \<times> intent list" where
  "actRanged w bb c =
     (let ch = char_of_controller w c
      in case targetOrPick w bb c ''RANGED'' of
           None \<Rightarrow> (c\<lparr>state := FOLLOW\<rparr>, [])
         | Some t \<Rightarrow>
             (let tc = Some (mapEvents w t);
                  d = distTiles ch tc;
                  keep = keepDistance (ccfg c);
                  mv = (if roaEnemyType (mapEvents w t) = Some ''MELEE'' \<and> d \<le> keep
                        then moveAway ch tc @ sidestep ch tc
                        else if d > preferredRange (ccfg c) then moveToward ch tc
                        else [])
              in (c\<lparr>state := ACQUIRE\<rparr>, mv @ fireAttack ch c)))"

text \<open>\<open>actMelee\<close> (lines 592-605).\<close>

definition actMelee :: "world \<Rightarrow> blackboard \<Rightarrow> controller \<Rightarrow> controller \<times> intent list" where
  "actMelee w bb c =
     (let ch = char_of_controller w c
      in case targetOrPick w bb c ''MELEE'' of
           None \<Rightarrow> (c\<lparr>state := FOLLOW\<rparr>, [])
         | Some t \<Rightarrow>
             (c\<lparr>state := ACQUIRE\<rparr>, moveToward ch (Some (mapEvents w t)) @ fireAttack ch c))"

fun nearestProtected_loop ::
  "world \<Rightarrow> character option \<Rightarrow> nat list \<Rightarrow> character option \<Rightarrow> int \<Rightarrow> character option"
  where
  "nearestProtected_loop w ch [] protectedChar bestD = protectedChar"
| "nearestProtected_loop w ch (aid # aids) protectedChar bestD =
     (case characterForActorId w aid of
        None \<Rightarrow> nearestProtected_loop w ch aids protectedChar bestD
      | Some pc \<Rightarrow>
          (let d = distTiles ch (Some pc)
           in if d < bestD then nearestProtected_loop w ch aids (Some pc) d
              else nearestProtected_loop w ch aids protectedChar bestD))"

text \<open>\<open>actTank\<close> (lines 607-650).\<close>

definition protectedActorIds :: "CFG \<Rightarrow> world \<Rightarrow> nat list" where
  "protectedActorIds G w =
     filter
       (\<lambda>aid. case gameActors w aid of
                 None \<Rightarrow> False
               | Some a \<Rightarrow>
                   (let r = rawRole (actorAiConfig G a) in r = ''RANGED'' \<or> r = ''HEALER''))
       (partyActorIds w)"

text \<open>
  The target choice of \<open>actTank\<close> (lines 621-640): the first enemy within the protect
  radius of the nearest protected ally's character, otherwise \<open>pickTarget\<close>.
\<close>

definition tankTarget :: "CFG \<Rightarrow> world \<Rightarrow> blackboard \<Rightarrow> controller \<Rightarrow> nat option" where
  "tankTarget G w bb c =
     (let ch = char_of_controller w c;
          protectedChar = nearestProtected_loop w ch (protectedActorIds G w) None 9999;
          peel = (case protectedChar of
                    None \<Rightarrow> None
                  | Some pc \<Rightarrow>
                      List.find
                        (\<lambda>e. distTiles (Some pc) (Some (mapEvents w e)) \<le> protectRadius (ccfg c))
                        (enemies bb))
      in case peel of Some e \<Rightarrow> Some e | None \<Rightarrow> pickTarget w bb c ''TANK'')"

definition actTank :: "CFG \<Rightarrow> world \<Rightarrow> blackboard \<Rightarrow> controller \<Rightarrow> controller \<times> intent list"
  where
  "actTank G w bb c =
     (let ch = char_of_controller w c
      in case tankTarget G w bb c of
           None \<Rightarrow> (c\<lparr>state := FOLLOW\<rparr>, [])
         | Some e \<Rightarrow>
             (c\<lparr>state := ACQUIRE\<rparr>, moveToward ch (Some (mapEvents w e)) @ fireAttack ch c))"

subsection \<open>Healer script\<close>

text \<open>\<open>$gameParty.leader() ? $gameParty.leader().actorId() : 0\<close>.\<close>

definition leaderId :: "world \<Rightarrow> nat" where
  "leaderId w = (case partyLeader w of None \<Rightarrow> 0 | Some l \<Rightarrow> l)"

text \<open>
  The grouping loop of \<open>buildHealerBuffQueue\<close> (lines 727-735), as the ids each of the
  three arrays ends up with.
\<close>

definition group_healer :: "CFG \<Rightarrow> world \<Rightarrow> nat list" where
  "group_healer G w =
     filter
       (\<lambda>aid. case gameActors w aid of
                 None \<Rightarrow> False
               | Some a \<Rightarrow> rawRole (actorAiConfig G a) = ''HEALER'')
       (partyActorIds w)"

definition group_melee :: "CFG \<Rightarrow> world \<Rightarrow> nat list" where
  "group_melee G w =
     filter
       (\<lambda>aid. case gameActors w aid of
                 None \<Rightarrow> False
               | Some a \<Rightarrow>
                   (let r = rawRole (actorAiConfig G a)
                    in r \<noteq> ''HEALER'' \<and> (r = ''TANK'' \<or> r = ''MELEE'')))
       (partyActorIds w)"

definition group_ranged :: "CFG \<Rightarrow> world \<Rightarrow> nat list" where
  "group_ranged G w =
     filter
       (\<lambda>aid. case gameActors w aid of
                 None \<Rightarrow> False
               | Some a \<Rightarrow>
                   (let r = rawRole (actorAiConfig G a)
                    in r \<noteq> ''HEALER'' \<and> \<not> (r = ''TANK'' \<or> r = ''MELEE'')))
       (partyActorIds w)"

text \<open>\<open>buildHealerBuffQueue\<close> (lines 719-744).\<close>

definition buildHealerBuffQueue :: "CFG \<Rightarrow> world \<Rightarrow> nat list" where
  "buildHealerBuffQueue G w =
     (let lid = leaderId w
      in (if lid \<noteq> 0 then [lid] else [])
         @ filter (\<lambda>aid. aid \<noteq> lid) (group_melee G w)
         @ filter (\<lambda>aid. aid \<noteq> lid) (group_ranged G w)
         @ filter (\<lambda>aid. aid \<noteq> lid) (group_healer G w))"

fun lowestHpAlly_loop :: "world \<Rightarrow> nat list \<Rightarrow> (nat \<times> rat) option \<Rightarrow> (nat \<times> rat) option"
  where
  "lowestHpAlly_loop w [] best = best"
| "lowestHpAlly_loop w (aid # aids) best =
     (case gameActors w aid of
        None \<Rightarrow> lowestHpAlly_loop w aids best
      | Some a \<Rightarrow>
          if isDead a then lowestHpAlly_loop w aids best
          else (let pct = hpRate a * 100
                in if (case best of None \<Rightarrow> True | Some b \<Rightarrow> pct < snd b)
                   then lowestHpAlly_loop w aids (Some (aid, pct))
                   else lowestHpAlly_loop w aids best))"

text \<open>\<open>lowestHpAlly\<close> (lines 746-758): the pair \<open>(actorId, hpPct)\<close>.\<close>

definition lowestHpAlly :: "world \<Rightarrow> (nat \<times> rat) option" where
  "lowestHpAlly w = lowestHpAlly_loop w (partyActorIds w) None"

text \<open>\<open>doHealerHeal\<close> (lines 760-790).\<close>

definition doHealerHeal :: "world \<Rightarrow> controller \<Rightarrow> nat \<Rightarrow> controller \<times> intent list" where
  "doHealerHeal w c targetActorId =
     (if toolHeal (ccfg c) = 0 \<and> toolAttack (ccfg c) = 0 then (c, [])
      else
        (let userChar = char_of_controller w c;
             targetChar = characterForActorId w targetActorId;
             userActor = actor_of_controller w c;
             targetActor = gameActors w targetActorId
         in if userChar = None \<or> userActor = None \<or> targetActor = None then (c, [])
            else
              (let d = (if targetChar \<noteq> None then distTiles userChar targetChar else 999)
               in if targetChar \<noteq> None \<and> d > preferredRange (ccfg c)
                  then (c, moveToward userChar targetChar)
                  else (c, if toolHeal (ccfg c) > 0
                           then tryUseTool userChar (toolHeal (ccfg c)) 1 else []))))"

text \<open>\<open>doHealerBuff\<close> (lines 792-817).\<close>

definition doHealerBuff :: "world \<Rightarrow> controller \<Rightarrow> nat \<Rightarrow> controller \<times> intent list" where
  "doHealerBuff w c targetActorId =
     (if toolBuff (ccfg c) = 0 then (c, [])
      else
        (let userChar = char_of_controller w c;
             targetChar = characterForActorId w targetActorId;
             userActor = actor_of_controller w c;
             targetActor = gameActors w targetActorId
         in if userChar = None \<or> userActor = None \<or> targetActor = None then (c, [])
            else
              (let d = (if targetChar \<noteq> None then distTiles userChar targetChar else 999)
               in if targetChar \<noteq> None \<and> d > preferredRange (ccfg c)
                  then (c, moveToward userChar targetChar)
                  else (c\<lparr>buffedThisCombat := insert targetActorId (buffedThisCombat c)\<rparr>,
                        tryUseTool userChar (toolBuff (ccfg c)) 1))))"

text \<open>The combat-window block of \<open>actHealer\<close> (lines 657-662).\<close>

definition healerCombatWindow :: "CFG \<Rightarrow> world \<Rightarrow> blackboard \<Rightarrow> controller \<Rightarrow> controller" where
  "healerCombatWindow G w bb c =
     (if combatActive bb \<and> combatStartFrameSeen c \<noteq> combatStartFrame bb
      then c\<lparr>combatStartFrameSeen := combatStartFrame bb,
             buffedThisCombat := {},
             buffQueue := buildHealerBuffQueue G w\<rparr>
      else c)"

text \<open>
  The buff step of \<open>actHealer\<close> (lines 684-694): the next queued id that is not yet
  buffed, when combat is active and the buff window is open; id 0 is falsy.
\<close>

definition nextBuff :: "CFG \<Rightarrow> blackboard \<Rightarrow> controller \<Rightarrow> nat option" where
  "nextBuff G bb c =
     (if combatActive bb \<and> frame bb - combatStartFrame bb \<le> healerBuffWindowFrames G
      then (case List.find (\<lambda>aid. aid \<notin> buffedThisCombat c) (buffQueue c) of
              None \<Rightarrow> None
            | Some n \<Rightarrow> if n = 0 then None else Some n)
      else None)"

text \<open>The self-defence and reposition tail of \<open>actHealer\<close> (lines 696-716).\<close>

definition healerIdle :: "world \<Rightarrow> blackboard \<Rightarrow> controller \<Rightarrow> controller \<times> intent list" where
  "healerIdle w bb c =
     (let userChar = char_of_controller w c
      in case List.find (\<lambda>e. distTiles userChar (Some (mapEvents w e)) \<le> 2) (enemies bb) of
           Some closeEnemy \<Rightarrow>
             (c\<lparr>state := ACT\<rparr>,
              if toolDefend (ccfg c) > 0 then tryUseTool userChar (toolDefend (ccfg c)) 0
              else if toolAttack (ccfg c) > 0 then tryUseTool userChar (toolAttack (ccfg c)) 0
              else moveAway userChar (Some (mapEvents w closeEnemy)))
         | None \<Rightarrow>
             (c\<lparr>state := ACQUIRE\<rparr>,
              if distTiles userChar (Some (gamePlayer w)) > 3
              then moveToward userChar (Some (gamePlayer w)) else []))"

text \<open>\<open>actHealer\<close> (lines 652-717).\<close>

definition actHealer :: "CFG \<Rightarrow> world \<Rightarrow> blackboard \<Rightarrow> controller \<Rightarrow> controller \<times> intent list"
  where
  "actHealer G w bb c =
     (if actor_of_controller w c = None \<or> char_of_controller w c = None
      then (c\<lparr>state := FOLLOW\<rparr>, [])
      else
        (let c1 = healerCombatWindow G w bb c;
             lowest = lowestHpAlly w;
             heal = (\<lambda>aid. let r = doHealerHeal w c1 aid in ((fst r)\<lparr>state := ACT\<rparr>, snd r))
         in case lowest of
              Some l \<Rightarrow>
                if snd l \<le> of_int (healerCriticalThreshold G) then heal (fst l)
                else if snd l \<le> of_int (healerHealThreshold G) then heal (fst l)
                else (case nextBuff G bb c1 of
                        Some n \<Rightarrow> (let r = doHealerBuff w c1 n in ((fst r)\<lparr>state := ACT\<rparr>, snd r))
                      | None \<Rightarrow> healerIdle w bb c1)
            | None \<Rightarrow>
                (case nextBuff G bb c1 of
                   Some n \<Rightarrow> (let r = doHealerBuff w c1 n in ((fst r)\<lparr>state := ACT\<rparr>, snd r))
                 | None \<Rightarrow> healerIdle w bb c1)))"

subsection \<open>The think step\<close>

text \<open>\<open>thinkAct\<close> (lines 527-534).\<close>

definition thinkAct :: "CFG \<Rightarrow> world \<Rightarrow> blackboard \<Rightarrow> controller \<Rightarrow> controller \<times> intent list"
  where
  "thinkAct G w bb c =
     (let rl = Controller_role c
      in if rl = ''HEALER'' then actHealer G w bb c
         else if rl = ''RANGED'' then actRanged w bb c
         else if rl = ''TANK'' then actTank G w bb c
         else actMelee w bb c)"

text \<open>
  The part of \<open>Controller.update\<close> that runs once the countdown has elapsed
  (lines 440-465): countdown reset, leash check, healer reset, state dispatch.
\<close>

definition think :: "CFG \<Rightarrow> world \<Rightarrow> blackboard \<Rightarrow> character \<Rightarrow> controller \<Rightarrow> controller \<times> intent list"
  where
  "think G w bb ch c =
     (let c1 = c\<lparr>thinkCd := thinkInterval G\<rparr>;
          c2 = (if distTiles (Some ch) (Some (gamePlayer w)) > leash (ccfg c1)
                then c1\<lparr>state := RECOVER, target := None\<rparr> else c1);
          c3 = (if \<not> combatActive bb
                then c2\<lparr>buffedThisCombat := {}, buffQueue := [], combatStartFrameSeen := 0\<rparr>
                else c2)
      in case state c3 of
           FOLLOW \<Rightarrow> thinkFollow w bb c3
         | ACQUIRE \<Rightarrow> thinkAcquire w bb c3
         | ACT \<Rightarrow> thinkAct G w bb c3
         | RECOVER \<Rightarrow> thinkRecover w c3
         | HOLD \<Rightarrow> thinkHold w bb c3)"

text \<open>\<open>Controller.update\<close> (lines 432-466).\<close>

definition Controller_update ::
  "CFG \<Rightarrow> world \<Rightarrow> blackboard \<Rightarrow> controller \<Rightarrow> controller \<times> intent list" where
  "Controller_update G w bb c =
     (if \<not> enabledG G \<or> \<not> enabled (ccfg c) then (c, [])
      else (case char_of_controller w c of
              None \<Rightarrow> (c, [])
            | Some ch \<Rightarrow>
                (case actor_of_controller w c of
                   None \<Rightarrow> (c, [])
                 | Some ac \<Rightarrow>
                     if thinkCd c > 0 then (c\<lparr>thinkCd := thinkCd c - 1\<rparr>, [])
                     else think G w bb ch (c\<lparr>thinkCd := thinkCd c - 1\<rparr>))))"

section \<open>Manager\<close>

text \<open>
  The \<open>controllers\<close> map keeps insertion order; \<open>AList.update\<close> replaces the value of a
  present key in place and appends a new key, as \<open>Map.prototype.set\<close> does.
\<close>

record manager =
  mbb :: blackboard
  controllers :: "(nat \<times> controller) list"

definition new_Manager :: manager where
  "new_Manager = \<lparr>mbb = new_Blackboard, controllers = []\<rparr>"

text \<open>
  One pass of the first loop of \<open>Manager.sync\<close> (lines 845-863); \<open>rnd aid\<close> is the
  random number drawn when a Controller for \<open>aid\<close> is constructed.
\<close>

definition sync_actor ::
  "CFG \<Rightarrow> world \<Rightarrow> (nat \<Rightarrow> rat) \<Rightarrow> (nat \<times> controller) list \<Rightarrow> nat
     \<Rightarrow> (nat \<times> controller) list" where
  "sync_actor G w rnd cs aid =
     (if aid = leaderId w then cs
      else (case gameActors w aid of
              None \<Rightarrow> cs
            | Some a \<Rightarrow>
                (let c = actorAiConfig G a
                 in if \<not> enabled c then AList.delete aid cs
                    else (case map_of cs aid of
                            None \<Rightarrow> AList.update aid (new_Controller G (rnd aid) aid c) cs
                          | Some old \<Rightarrow> AList.update aid (old\<lparr>ccfg := c\<rparr>) cs))))"

text \<open>\<open>Manager.sync\<close> (lines 838-869).\<close>

definition Manager_sync :: "CFG \<Rightarrow> world \<Rightarrow> (nat \<Rightarrow> rat) \<Rightarrow> manager \<Rightarrow> manager" where
  "Manager_sync G w rnd m =
     (if \<not> enabledG G then m
      else
        (let ids = partyActorIds w;
             cs1 = foldl (sync_actor G w rnd) (controllers m) ids;
             cs2 = foldl (\<lambda>cs k. if k \<in> set ids then cs else AList.delete k cs) cs1
                     (map fst cs1)
         in m\<lparr>controllers := cs2\<rparr>))"

text \<open>
  \<open>Manager.update\<close> (lines 871-881).  Every Controller of the frame is stepped against
  the same report of the world.
\<close>

definition Manager_update ::
  "CFG \<Rightarrow> world \<Rightarrow> (nat \<Rightarrow> rat) \<Rightarrow> manager \<Rightarrow> manager \<times> intent list" where
  "Manager_update G w rnd m =
     (if \<not> enabledG G then (m, [])
      else
        (let m1 = m\<lparr>mbb := Blackboard_update G w (mbb m)\<rparr>;
             m2 = Manager_sync G w rnd m1;
             rs = map (\<lambda>kc. (fst kc, Controller_update G w (mbb m2) (snd kc))) (controllers m2)
         in (m2\<lparr>controllers := map (\<lambda>r. (fst r, fst (snd r))) rs\<rparr>,
             concat (map (\<lambda>r. snd (snd r)) rs))))"

text \<open>The \<open>Game_Map.setup\<close> hook (lines 895-903).\<close>

definition Game_Map_setup :: "CFG \<Rightarrow> world \<Rightarrow> (nat \<Rightarrow> rat) \<Rightarrow> manager \<Rightarrow> manager" where
  "Game_Map_setup G w rnd m =
     Manager_sync G w rnd (m\<lparr>mbb := new_Blackboard, controllers := []\<rparr>)"

section \<open>Specification-level notions\<close>

text \<open>Manhattan distance between two characters that are both present.\<close>

definition manhattan :: "character \<Rightarrow> character \<Rightarrow> int" where
  "manhattan a b = \<bar>posx a - posx b\<bar> + \<bar>posy a - posy b\<bar>"

text \<open>
  The nearest element of a pool under a distance \<open>d\<close>, ties broken by scan order: the
  first element no other element is closer than.
\<close>

definition spec_firstNearest :: "(nat \<Rightarrow> int) \<Rightarrow> nat list \<Rightarrow> nat option" where
  "spec_firstNearest d pool = List.find (\<lambda>e. \<forall>e' \<in> set pool. d e \<le> d e') pool"

text \<open>
  The Target Selector for the RANGED role as the specification words it: the nearest
  RANGED-tagged enemy if one exists, otherwise the nearest enemy; none for the empty list.
\<close>

definition spec_rangedPool :: "world \<Rightarrow> nat list \<Rightarrow> nat list" where
  "spec_rangedPool w es =
     (if \<exists>e \<in> set es. roaEnemyType (mapEvents w e) = Some ''RANGED''
      then filter (\<lambda>e. roaEnemyType (mapEvents w e) = Some ''RANGED'') es
      else es)"

definition spec_pickRanged :: "world \<Rightarrow> character \<Rightarrow> nat list \<Rightarrow> nat option" where
  "spec_pickRanged w ch es =
     spec_firstNearest (\<lambda>e. manhattan ch (mapEvents w e)) (spec_rangedPool w es)"

text \<open>
  The role a party member's configuration resolves to: one of the four known values,
  anything else counting as MELEE (what \<open>Controller.role\<close> computes).
\<close>

definition roleOfActor :: "CFG \<Rightarrow> actor \<Rightarrow> string" where
  "roleOfActor G a =
     (let r = rawRole (actorAiConfig G a)
      in if r = ''RANGED'' \<or> r = ''MELEE'' \<or> r = ''TANK'' \<or> r = ''HEALER'' then r
         else ''MELEE'')"

definition idsWithRole :: "CFG \<Rightarrow> world \<Rightarrow> (string \<Rightarrow> bool) \<Rightarrow> nat list" where
  "idsWithRole G w P =
     filter (\<lambda>aid. case gameActors w aid of None \<Rightarrow> False | Some a \<Rightarrow> P (roleOfActor G a))
       (partyActorIds w)"

text \<open>
  The buff queue as the specification words it, for the healer with actor id \<open>self\<close>:
  leader, melee and tank ids, ranged ids, the other healers' ids; the leader removed from
  the later groups.
\<close>

definition spec_buffQueue :: "CFG \<Rightarrow> world \<Rightarrow> nat \<Rightarrow> nat list" where
  "spec_buffQueue G w self =
     (case partyLeader w of None \<Rightarrow> [] | Some l \<Rightarrow> [l])
     @ filter (\<lambda>aid. aid \<noteq> leaderId w) (idsWithRole G w (\<lambda>r. r = ''MELEE'' \<or> r = ''TANK''))
     @ filter (\<lambda>aid. aid \<noteq> leaderId w) (idsWithRole G w (\<lambda>r. r = ''RANGED''))
     @ filter (\<lambda>aid. aid \<noteq> leaderId w \<and> aid \<noteq> self) (idsWithRole G w (\<lambda>r. r = ''HEALER''))"

text \<open>The same queue with every healer of the party in the last group.\<close>

definition buffQueue_by_role :: "CFG \<Rightarrow> world \<Rightarrow> nat list" where
  "buffQueue_by_role G w =
     (if leaderId w \<noteq> 0 then [leaderId w] else [])
     @ filter (\<lambda>aid. aid \<noteq> leaderId w) (idsWithRole G w (\<lambda>r. r = ''MELEE'' \<or> r = ''TANK''))
     @ filter (\<lambda>aid. aid \<noteq> leaderId w) (idsWithRole G w (\<lambda>r. r = ''RANGED''))
     @ filter (\<lambda>aid. aid \<noteq> leaderId w) (idsWithRole G w (\<lambda>r. r = ''HEALER''))"

text \<open>Every party member whose actor resolves carries one of the four known role strings.\<close>

definition knownRoles :: "CFG \<Rightarrow> world \<Rightarrow> bool" where
  "knownRoles G w =
     list_all
       (\<lambda>aid. case gameActors w aid of
                 None \<Rightarrow> True
               | Some a \<Rightarrow> rawRole (actorAiConfig G a) = roleOfActor G a)
       (partyActorIds w)"

text \<open>Movement intents and ability intents.\<close>

fun isMovement :: "intent \<Rightarrow> bool" where
  "isMovement (MoveToward a b) = True"
| "isMovement (MoveAway a b) = True"
| "isMovement (Sidestep a b) = True"
| "isMovement (UseTool a t k) = False"

definition movements :: "intent list \<Rightarrow> nat" where
  "movements xs = length (filter isMovement xs)"

definition abilities :: "intent list \<Rightarrow> nat" where
  "abilities xs = length (filter (\<lambda>i. \<not> isMovement i) xs)"

text \<open>
  A RANGED agent kiting: its target is MELEE-tagged and within the keep-away distance.
\<close>

definition kiting :: "world \<Rightarrow> blackboard \<Rightarrow> controller \<Rightarrow> bool" where
  "kiting w bb c =
     (Controller_role c = ''RANGED'' \<and>
      (case targetOrPick w bb c ''RANGED'' of
         None \<Rightarrow> False
       | Some t \<Rightarrow>
           roaEnemyType (mapEvents w t) = Some ''MELEE'' \<and>
           distTiles (char_of_controller w c) (Some (mapEvents w t)) \<le> keepDistance (ccfg c)))"

text \<open>
  Whether the ACT behaviour of a non-healer has a target to act on: the stored target or
  the Target Selector's pick for a RANGED or MELEE agent, the tank's own choice for a TANK.
\<close>

definition actTargetFound :: "CFG \<Rightarrow> world \<Rightarrow> blackboard \<Rightarrow> controller \<Rightarrow> bool" where
  "actTargetFound G w bb c =
     (if Controller_role c = ''RANGED'' then targetOrPick w bb c ''RANGED'' \<noteq> None
      else if Controller_role c = ''TANK'' then tankTarget G w bb c \<noteq> None
      else targetOrPick w bb c ''MELEE'' \<noteq> None)"

text \<open>
  The three supporting actions of the Healer Script.  A heal is due when the living ally
  with the lowest HP percentage is at or below the critical or the normal threshold.  A
  buff is due when combat is active, the buff window is open and the first id of the
  queue that is not in the buffed-set is an actor id (not 0); the queue and the buffed-set
  are those of the running combat window: freshly built and empty when the combat-start
  frame differs from the one the healer saw last.  Self-defence is due when an enemy is
  within two tiles of the healer.
\<close>

definition healDue :: "CFG \<Rightarrow> world \<Rightarrow> bool" where
  "healDue G w =
     (case lowestHpAlly w of
        None \<Rightarrow> False
      | Some l \<Rightarrow> snd l \<le> of_int (healerCriticalThreshold G)
                  \<or> snd l \<le> of_int (healerHealThreshold G))"

definition buffDue :: "CFG \<Rightarrow> world \<Rightarrow> blackboard \<Rightarrow> controller \<Rightarrow> bool" where
  "buffDue G w bb c =
     (combatActive bb \<and> frame bb - combatStartFrame bb \<le> healerBuffWindowFrames G \<and>
      (let fresh = (combatStartFrameSeen c \<noteq> combatStartFrame bb);
           queue = (if fresh then buildHealerBuffQueue G w else buffQueue c);
           buffed = (if fresh then {} else buffedThisCombat c)
       in case filter (\<lambda>aid. aid \<notin> buffed) queue of [] \<Rightarrow> False | n # _ \<Rightarrow> n \<noteq> 0))"

definition defenceDue :: "world \<Rightarrow> blackboard \<Rightarrow> controller \<Rightarrow> bool" where
  "defenceDue w bb c =
     list_ex (\<lambda>e. distTiles (char_of_controller w c) (Some (mapEvents w e)) \<le> 2) (enemies bb)"

text \<open>
  The state an ACT think ends in: a non-healer in ACQUIRE when it had a target and in
  FOLLOW when it had none; a healer in FOLLOW when its actor or character does not
  resolve, in ACT after a heal, a buff or self-defence, and in ACQUIRE otherwise.
\<close>

definition stateAfterAct :: "CFG \<Rightarrow> world \<Rightarrow> blackboard \<Rightarrow> controller \<Rightarrow> fsm" where
  "stateAfterAct G w bb c =
     (if Controller_role c = ''HEALER''
      then (if actor_of_controller w c = None \<or> char_of_controller w c = None then FOLLOW
            else if healDue G w \<or> buffDue G w bb c \<or> defenceDue w bb c then ACT
            else ACQUIRE)
      else if actTargetFound G w bb c then ACQUIRE else FOLLOW)"

text \<open>
  The guards at the head of \<open>Controller.update\<close> (lines 433-437): AI switched off
  globally or for this agent, or the agent's map character or actor not resolving.
\<close>

definition tickAborts :: "CFG \<Rightarrow> world \<Rightarrow> controller \<Rightarrow> bool" where
  "tickAborts G w c =
     (\<not> enabledG G \<or> \<not> enabled (ccfg c)
      \<or> char_of_controller w c = None \<or> actor_of_controller w c = None)"

text \<open>The Manager holds a Controller for an actor id.\<close>

definition hasController :: "manager \<Rightarrow> nat \<Rightarrow> bool" where
  "hasController m aid = (map_of (controllers m) aid \<noteq> None)"

text \<open>A party member that is not the leader and whose configuration has AI enabled.\<close>

definition eligible :: "CFG \<Rightarrow> world \<Rightarrow> nat \<Rightarrow> bool" where
  "eligible G w aid =
     (aid \<noteq> leaderId w \<and> aid \<in> set (partyActorIds w) \<and>
      (case gameActors w aid of None \<Rightarrow> False | Some a \<Rightarrow> enabled (actorAiConfig G a)))"

section \<open>Example scenes\<close>

definition G0 :: CFG where
  "G0 = \<lparr>enabledG = True, thinkInterval = 8, enemyScanInterval = 15, defaultAggro = 6,
          defaultLeash = 10, defaultPreferredRange = 4, defaultKeepDistance = 4,
          defaultProtectRadius = 5, healerHealThreshold = 70, healerCriticalThreshold = 35,
          healerBuffWindowFrames = 300\<rparr>"

definition at_tile :: "int \<Rightarrow> int \<Rightarrow> character" where
  "at_tile px py = \<lparr>posx = px, posy = py, roaEnemyType = None\<rparr>"

definition enemy_at :: "int \<Rightarrow> int \<Rightarrow> string \<Rightarrow> character" where
  "enemy_at px py t = \<lparr>posx = px, posy = py, roaEnemyType = Some t\<rparr>"

text \<open>
  A living party member with the given \<open>ChronoAI\<close> flag, role tag and HP rate, and tools
  5 (attack), 12 (heal) and 13 (buff).
\<close>

definition party_actor :: "bool \<Rightarrow> string \<Rightarrow> rat \<Rightarrow> actor" where
  "party_actor en rl hp =
     \<lparr>isDead = False, hpRate = hp, tagChronoAI = Some en, tagRole = Some rl,
      tagStance = None, tagAggro = None, tagLeash = None, tagPreferredRange = None,
      tagKeepDistance = None, tagProtectRadius = None, tagToolAttack = Some 5,
      tagToolDefend = None, tagToolHeal = Some 12, tagToolBuff = Some 13\<rparr>"

text \<open>
  A scene: the player at (0,0), the given actors, party order and enemy events, the first
  party member leading.  The adapter resolves actor 2 to a character at (1,0) and actor 3
  to one at (9,0), and no other actor; event 7 is what an enemy scan finds.
\<close>

definition scene :: "(nat \<Rightarrow> actor option) \<Rightarrow> nat list \<Rightarrow> (nat \<Rightarrow> character) \<Rightarrow> world" where
  "scene actors party events =
     \<lparr>gamePlayer = at_tile 0 0, mapEvents = events, enemyCharacters = [7],
      partyActorIds = party, partyLeader = (case party of [] \<Rightarrow> None | l # _ \<Rightarrow> Some l),
      gameActors = actors,
      characterForActorId = (\<lambda>aid. if aid = 2 then Some (at_tile 1 0)
                                   else if aid = 3 then Some (at_tile 9 0) else None),
      movedToward = (\<lambda>a b. a)\<rparr>"

definition board :: "nat list \<Rightarrow> bool \<Rightarrow> int \<Rightarrow> blackboard" where
  "board es active start =
     \<lparr>frame = 41, enemyScanCd = 3, enemies = es, combatActive = active,
      combatStartFrame = start\<rparr>"

text \<open>
  The Controller of party member \<open>aid\<close> with role tag \<open>rl\<close>, in FSM state \<open>st\<close>, its
  countdown elapsed.
\<close>

definition agent :: "nat \<Rightarrow> string \<Rightarrow> fsm \<Rightarrow> controller" where
  "agent aid rl st =
     \<lparr>actorId = aid, ccfg = actorAiConfig G0 (party_actor True rl 1), thinkCd = 0,
      state = st, target = None, buffedThisCombat = {}, buffQueue = [],
      combatStartFrameSeen = 0\<rparr>"

text \<open>Leader 1 (MELEE, no AI), healer 2, ranged 3, tank 4.\<close>

definition roster :: "nat \<Rightarrow> actor option" where
  "roster aid =
     (if aid = 1 then Some (party_actor False ''MELEE'' 1)
      else if aid = 2 then Some (party_actor True ''HEALER'' 1)
      else if aid = 3 then Some (party_actor True ''RANGED'' 1)
      else if aid = 4 then Some (party_actor True ''TANK'' 1)
      else None)"

text \<open>
  Enemy events 3 (MELEE, one tile from member 2), 4 and 5 (RANGED, five tiles away) and
  the others (RANGED, seven tiles away).
\<close>

definition skirmish :: "nat \<Rightarrow> character" where
  "skirmish e =
     (if e = 3 then enemy_at 1 1 ''MELEE''
      else if e = 4 then enemy_at 4 2 ''RANGED''
      else if e = 5 then enemy_at 6 0 ''RANGED''
      else enemy_at 8 0 ''RANGED'')"

text \<open>The same party with the leader at 60% HP and healer 2 at 30% HP.\<close>

definition roster_hurt :: "nat \<Rightarrow> actor option" where
  "roster_hurt aid =
     (if aid = 1 then Some (party_actor False ''MELEE'' (3 / 5))
      else if aid = 2 then Some (party_actor True ''HEALER'' (3 / 10))
      else roster aid)"

text \<open>The same party with member 4 tagged with the unknown role WIZARD.\<close>

definition roster_wizard :: "nat \<Rightarrow> actor option" where
  "roster_wizard aid =
     (if aid = 4 then Some (party_actor True ''WIZARD'' 1) else roster aid)"

text \<open>The same party with AI enabled in the configuration of actor 1 as well.\<close>

definition roster_ai :: "nat \<Rightarrow> actor option" where
  "roster_ai aid =
     (if aid = 1 then Some (party_actor True ''MELEE'' 1) else roster aid)"

section \<open>Evaluation of the example scenes\<close>

lemma toUpperCase_roles:
  "toUpperCase ''MELEE'' = ''MELEE''"
  "toUpperCase ''RANGED'' = ''RANGED''"
  "toUpperCase ''TANK'' = ''TANK''"
  "toUpperCase ''HEALER'' = ''HEALER''"
  "toUpperCase ''WIZARD'' = ''WIZARD''"
  "toUpperCase ''AGGRESSIVE'' = ''AGGRESSIVE''"
  by (simp_all add: toUpperCase_def upperChar_def)

lemma actorAiConfig_party_actor:
  assumes "rl \<noteq> []" and "toUpperCase rl = rl"
  shows "actorAiConfig G (party_actor en rl hp) =
     \<lparr>enabled = en, role = rl, stance = ''AGGRESSIVE'', aggro = defaultAggro G,
      leash = defaultLeash G, preferredRange = defaultPreferredRange G,
      keepDistance = defaultKeepDistance G, protectRadius = defaultProtectRadius G,
      toolAttack = 5, toolDefend = 0, toolHeal = 12, toolBuff = 13\<rparr>"
  using assms
  by (simp add: actorAiConfig_def party_actor_def orElse_def numberOr_def toUpperCase_roles)

lemma rawRole_upper:
  assumes "role c \<noteq> []" and "toUpperCase (role c) = role c"
  shows "rawRole c = role c"
  using assms by (simp add: rawRole_def)

lemmas role_simps =
  actorAiConfig_party_actor [OF _ toUpperCase_roles(1)]
  actorAiConfig_party_actor [OF _ toUpperCase_roles(2)]
  actorAiConfig_party_actor [OF _ toUpperCase_roles(3)]
  actorAiConfig_party_actor [OF _ toUpperCase_roles(4)]
  actorAiConfig_party_actor [OF _ toUpperCase_roles(5)]
  rawRole_upper toUpperCase_roles

lemmas scene_simps = scene_def board_def G0_def enemy_at_def at_tile_def
  agent_def roster_def skirmish_def role_simps char_of_controller_def actor_of_controller_def
  manhattan_def

lemma party_actor_sel:
  "isDead (party_actor en rl hp) = False" "hpRate (party_actor en rl hp) = hp"
  by (simp_all add: party_actor_def)

lemmas eval_simps = scene_simps roster_hurt_def roster_wizard_def roster_ai_def party_actor_sel

section \<open>Distances\<close>

lemma distTiles_Some: "distTiles (Some a) (Some b) = manhattan a b"
  by (simp add: distTiles_def manhattan_def)

lemma distTiles_None: "distTiles None b = 9999"
  by (simp add: distTiles_def)

lemmas dist_simps = distTiles_Some distTiles_None

section \<open>Blackboard: the combat flag and the combat-start frame\<close>

text \<open>
  Claim C1.  In every Blackboard update the frame counter advances by one; the enemy list
  is the rescanned one when the scan countdown has run out and the cached one otherwise;
  \<open>combatActive\<close> afterwards is true exactly when some enemy of that list is, at its
  position in this frame, within \<open>defaultAggro\<close> tiles (manhattan) of the player; and
  \<open>combatStartFrame\<close> is set to the current frame exactly on a false-to-true change of
  \<open>combatActive\<close> and keeps its value in every other update, so it is written once per
  combat window.
\<close>

theorem Blackboard_update_combat_edge:
  assumes "bb' = Blackboard_update G w bb"
  shows "frame bb' = frame bb + 1
    \<and> enemies bb' = (if enemyScanCd bb \<le> 0 then enemyCharacters w else enemies bb)
    \<and> combatActive bb' =
        (\<exists>e \<in> set (enemies bb').
           manhattan (gamePlayer w) (mapEvents w e) \<le> defaultAggro G)
    \<and> combatStartFrame bb' =
        (if combatActive bb' \<and> \<not> combatActive bb then frame bb' else combatStartFrame bb)"
  unfolding assms Blackboard_update_def Let_def
  by (auto simp: list_ex_iff dist_simps)

text \<open>
  The scenario of the specification: one MELEE enemy, cached in the enemy list, stands at
  (10,0) in frame 42 and has walked to (6,0) in frames 43 and 44; the player is at (0,0)
  and the aggro radius is 6.  Combat is inactive after frame 42; it becomes active in
  frame 43, which is recorded as the start frame; frame 44 leaves the start frame alone.
\<close>

theorem Blackboard_update_combat_edge_witness:
  "\<not> combatActive
       (Blackboard_update G0 (scene roster [1, 2] (\<lambda>e. enemy_at 10 0 ''MELEE''))
          (board [7] False 0))
   \<and> combatStartFrame
       (Blackboard_update G0 (scene roster [1, 2] (\<lambda>e. enemy_at 10 0 ''MELEE''))
          (board [7] False 0)) = 0
   \<and> combatActive
       (Blackboard_update G0 (scene roster [1, 2] (\<lambda>e. enemy_at 6 0 ''MELEE''))
          (Blackboard_update G0 (scene roster [1, 2] (\<lambda>e. enemy_at 10 0 ''MELEE''))
             (board [7] False 0)))
   \<and> combatStartFrame
       (Blackboard_update G0 (scene roster [1, 2] (\<lambda>e. enemy_at 6 0 ''MELEE''))
          (Blackboard_update G0 (scene roster [1, 2] (\<lambda>e. enemy_at 10 0 ''MELEE''))
             (board [7] False 0))) = 43
   \<and> combatStartFrame
       (Blackboard_update G0 (scene roster [1, 2] (\<lambda>e. enemy_at 6 0 ''MELEE''))
          (Blackboard_update G0 (scene roster [1, 2] (\<lambda>e. enemy_at 6 0 ''MELEE''))
             (Blackboard_update G0 (scene roster [1, 2] (\<lambda>e. enemy_at 10 0 ''MELEE''))
                (board [7] False 0)))) = 43"
  using
    Blackboard_update_combat_edge
      [OF refl, of G0 "scene roster [1, 2] (\<lambda>e. enemy_at 10 0 ''MELEE'')" "board [7] False 0"]
    Blackboard_update_combat_edge
      [OF refl, of G0 "scene roster [1, 2] (\<lambda>e. enemy_at 6 0 ''MELEE'')"
        "Blackboard_update G0 (scene roster [1, 2] (\<lambda>e. enemy_at 10 0 ''MELEE''))
           (board [7] False 0)"]
    Blackboard_update_combat_edge
      [OF refl, of G0 "scene roster [1, 2] (\<lambda>e. enemy_at 6 0 ''MELEE'')"
        "Blackboard_update G0 (scene roster [1, 2] (\<lambda>e. enemy_at 6 0 ''MELEE''))
           (Blackboard_update G0 (scene roster [1, 2] (\<lambda>e. enemy_at 10 0 ''MELEE''))
              (board [7] False 0))"]
  by (simp add: scene_def board_def G0_def enemy_at_def at_tile_def manhattan_def)

section \<open>Target Selector\<close>

lemma spec_firstNearest_Cons:
  "spec_firstNearest d (e # es) =
     (if \<forall>e' \<in> set es. d e \<le> d e' then Some e else spec_firstNearest d es)"
proof (cases "\<forall>e' \<in> set es. d e \<le> d e'")
  case True
  then show ?thesis by (simp add: spec_firstNearest_def)
next
  case False
  then obtain y where y: "y \<in> set es" "d y < d e" by force
  have "List.find (\<lambda>x. d x \<le> d e \<and> (\<forall>e' \<in> set es. d x \<le> d e')) es
        = List.find (\<lambda>x. \<forall>e' \<in> set es. d x \<le> d e') es"
  proof (rule find_cong [OF refl])
    fix x assume "x \<in> set es"
    show "(d x \<le> d e \<and> (\<forall>e' \<in> set es. d x \<le> d e')) = (\<forall>e' \<in> set es. d x \<le> d e')"
      using y by force
  qed
  with False show ?thesis by (auto simp: spec_firstNearest_def)
qed

text \<open>
  The scan loop returns the first nearest element of the pool when some element is
  closer than the running bound, and the running best otherwise.
\<close>

lemma nearestInPool_loop_spec:
  "nearestInPool_loop w ch pool best bestD =
     (if \<exists>e \<in> set pool. distTiles ch (Some (mapEvents w e)) < bestD
      then spec_firstNearest (\<lambda>e. distTiles ch (Some (mapEvents w e))) pool
      else best)"
proof (induction pool arbitrary: best bestD)
  case Nil
  then show ?case by simp
next
  case (Cons e es)
  let ?d = "\<lambda>e. distTiles ch (Some (mapEvents w e))"
  show ?case
  proof (cases "?d e < bestD")
    case True
    have "(\<exists>x \<in> set es. ?d x < ?d e) = (\<not> (\<forall>e' \<in> set es. ?d e \<le> ?d e'))"
      by (auto simp: not_le)
    with True show ?thesis
      by (simp add: Cons.IH spec_firstNearest_Cons Let_def)
  next
    case False
    have "(\<exists>x \<in> set es. ?d x < bestD) \<Longrightarrow> \<not> (\<forall>e' \<in> set es. ?d e \<le> ?d e')"
      using False by force
    with False show ?thesis
      by (auto simp: Cons.IH spec_firstNearest_Cons Let_def)
  qed
qed

lemma spec_firstNearest_least:
  "spec_firstNearest d pool = Some e \<Longrightarrow> e \<in> set pool \<and> (\<forall>e' \<in> set pool. d e \<le> d e')"
  unfolding spec_firstNearest_def by (auto simp: find_Some_iff)

lemma spec_firstNearest_None: "(spec_firstNearest d pool = None) = (pool = [])"
proof (induction pool)
  case Nil
  show ?case by (simp add: spec_firstNearest_def)
next
  case (Cons e es)
  then show ?case by (auto simp: spec_firstNearest_Cons)
qed

lemma spec_rangedPool_code:
  "spec_rangedPool w es =
     (let ranged = filter (\<lambda>e. roaEnemyType (mapEvents w e) = Some ''RANGED'') es
      in if ranged \<noteq> [] then ranged else es)"
  by (auto simp: spec_rangedPool_def Let_def filter_empty_conv)

lemma spec_rangedPool_Nil: "(spec_rangedPool w es = []) = (es = [])"
  by (auto simp: spec_rangedPool_def filter_empty_conv)

text \<open>
  Claim C2, as amended.  For an agent whose character resolves, \<open>pickTarget\<close> for the
  RANGED role returns the nearest enemy (manhattan distance, the first minimum in scan
  order) among the RANGED-tagged enemies if there is one and among all enemies otherwise,
  provided that enemy is closer than the sentinel distance 9999; when the nearest enemy
  of the pool is 9999 tiles or more away, and when the enemy list is empty, it returns
  none.
\<close>

theorem pickTarget_ranged_within_sentinel:
  assumes "char_of_controller w c = Some ch"
  shows "pickTarget w bb c ''RANGED'' =
     (case spec_pickRanged w ch (enemies bb) of
        None \<Rightarrow> None
      | Some e \<Rightarrow> if manhattan ch (mapEvents w e) < 9999 then Some e else None)
     \<and> (enemies bb = [] \<longrightarrow> pickTarget w bb c ''RANGED'' = None)"
proof -
  let ?d = "\<lambda>e. manhattan ch (mapEvents w e)"
  let ?pool = "spec_rangedPool w (enemies bb)"
  have pick: "pickTarget w bb c ''RANGED'' =
      (if enemies bb = [] then None
       else if \<exists>e \<in> set ?pool. ?d e < 9999 then spec_firstNearest ?d ?pool else None)"
    using assms
    by (simp add: pickTarget_def nearestInPool_def nearestInPool_loop_spec
        spec_rangedPool_code Let_def dist_simps)
  have main: "pickTarget w bb c ''RANGED'' =
     (case spec_pickRanged w ch (enemies bb) of
        None \<Rightarrow> None
      | Some e \<Rightarrow> if manhattan ch (mapEvents w e) < 9999 then Some e else None)"
  proof (cases "spec_firstNearest ?d ?pool")
    case None
    then have "enemies bb = []"
      by (simp add: spec_firstNearest_None spec_rangedPool_Nil)
    with None pick show ?thesis by (simp add: spec_pickRanged_def)
  next
    case (Some e)
    from spec_firstNearest_least [OF Some]
    have e: "e \<in> set ?pool" "\<forall>e' \<in> set ?pool. ?d e \<le> ?d e'" by auto
    then have "(\<exists>x \<in> set ?pool. ?d x < 9999) = (?d e < 9999)" by force
    moreover have "enemies bb \<noteq> []"
      using e(1) spec_rangedPool_Nil [of w "enemies bb"] by auto
    ultimately show ?thesis using pick Some by (simp add: spec_pickRanged_def)
  qed
  have "pickTarget w bb c ''RANGED'' = None" if "enemies bb = []"
    using that by (simp add: pickTarget_def)
  with main show ?thesis by simp
qed

text \<open>
  Member 2 stands at (1,0).  Of the enemies 3 (MELEE, distance 1), 4 and 5 (RANGED,
  distance 5 each) and 6 (RANGED, distance 7) it picks 4: the RANGED-tagged enemies go
  first, and of the two nearest the one scanned first.  With the MELEE enemy alone it
  picks that one, and with no enemy it picks none.
\<close>

theorem pickTarget_ranged_within_sentinel_witness:
  "char_of_controller (scene roster [1, 2] skirmish) (agent 2 ''RANGED'' ACQUIRE)
     = Some (at_tile 1 0)
   \<and> pickTarget (scene roster [1, 2] skirmish) (board [3, 4, 5, 6] True 40)
        (agent 2 ''RANGED'' ACQUIRE) ''RANGED'' = Some 4
   \<and> pickTarget (scene roster [1, 2] skirmish) (board [3] True 40)
        (agent 2 ''RANGED'' ACQUIRE) ''RANGED'' = Some 3
   \<and> enemies (board [] True 40) = []
   \<and> pickTarget (scene roster [1, 2] skirmish) (board [] True 40)
        (agent 2 ''RANGED'' ACQUIRE) ''RANGED'' = None"
  using pickTarget_ranged_within_sentinel
      [of "scene roster [1, 2] skirmish" "agent 2 ''RANGED'' ACQUIRE" "at_tile 1 0"
          "board [3, 4, 5, 6] True 40"]
    pickTarget_ranged_within_sentinel
      [of "scene roster [1, 2] skirmish" "agent 2 ''RANGED'' ACQUIRE" "at_tile 1 0"
          "board [3] True 40"]
    pickTarget_ranged_within_sentinel
      [of "scene roster [1, 2] skirmish" "agent 2 ''RANGED'' ACQUIRE" "at_tile 1 0"
          "board [] True 40"]
  by (simp add: scene_simps spec_pickRanged_def spec_rangedPool_def spec_firstNearest_def)

text \<open>
  Claim C2 as stated fails: the enemy list holds one RANGED enemy, 9999 tiles from the
  agent at (1,0).  It is the nearest enemy of a non-empty list, and \<open>pickTarget\<close>
  returns none, because \<open>nearestInPool\<close> starts its search at the bound 9999.
\<close>

theorem pickTarget_ranged_far_enemy_counterexample:
  "enemies (board [7] True 40) \<noteq> []
   \<and> spec_pickRanged (scene roster [1, 2] (\<lambda>e. enemy_at 10000 0 ''RANGED'')) (at_tile 1 0)
        (enemies (board [7] True 40)) = Some 7
   \<and> char_of_controller (scene roster [1, 2] (\<lambda>e. enemy_at 10000 0 ''RANGED''))
        (agent 2 ''RANGED'' ACQUIRE) = Some (at_tile 1 0)
   \<and> pickTarget (scene roster [1, 2] (\<lambda>e. enemy_at 10000 0 ''RANGED'')) (board [7] True 40)
        (agent 2 ''RANGED'' ACQUIRE) ''RANGED'' = None"
  by (simp add: scene_simps spec_pickRanged_def spec_rangedPool_def spec_firstNearest_def
      pickTarget_def nearestInPool_def dist_simps)

section \<open>Healer: the buff queue\<close>

lemma idsWithRole_cong:
  assumes "knownRoles G w"
    and "\<And>r. r = ''RANGED'' \<or> r = ''MELEE'' \<or> r = ''TANK'' \<or> r = ''HEALER'' \<Longrightarrow> Q r = P r"
  shows "filter (\<lambda>aid. case gameActors w aid of None \<Rightarrow> False
                       | Some a \<Rightarrow> Q (rawRole (actorAiConfig G a))) (partyActorIds w)
         = idsWithRole G w P"
  unfolding idsWithRole_def
proof (rule filter_cong [OF refl])
  fix aid assume "aid \<in> set (partyActorIds w)"
  with assms(1) have k: "case gameActors w aid of None \<Rightarrow> True
      | Some a \<Rightarrow> rawRole (actorAiConfig G a) = roleOfActor G a"
    by (simp add: knownRoles_def list_all_iff)
  show "(case gameActors w aid of None \<Rightarrow> False | Some a \<Rightarrow> Q (rawRole (actorAiConfig G a)))
      = (case gameActors w aid of None \<Rightarrow> False | Some a \<Rightarrow> P (roleOfActor G a))"
  proof (cases "gameActors w aid")
    case None
    then show ?thesis by simp
  next
    case (Some a)
    with k have eq: "rawRole (actorAiConfig G a) = roleOfActor G a" by simp
    have "roleOfActor G a = ''RANGED'' \<or> roleOfActor G a = ''MELEE''
        \<or> roleOfActor G a = ''TANK'' \<or> roleOfActor G a = ''HEALER''"
      by (simp add: roleOfActor_def Let_def)
    from assms(2) [OF this] show ?thesis using Some eq by simp
  qed
qed

lemma buildHealerBuffQueue_known:
  assumes "knownRoles G w"
  shows "buildHealerBuffQueue G w = buffQueue_by_role G w"
proof -
  have m: "group_melee G w = idsWithRole G w (\<lambda>r. r = ''MELEE'' \<or> r = ''TANK'')"
    unfolding group_melee_def Let_def
    by (rule idsWithRole_cong [OF assms]) auto
  have r: "group_ranged G w = idsWithRole G w (\<lambda>r. r = ''RANGED'')"
    unfolding group_ranged_def Let_def
    by (rule idsWithRole_cong [OF assms]) auto
  have h: "group_healer G w = idsWithRole G w (\<lambda>r. r = ''HEALER'')"
    unfolding group_healer_def
    by (rule idsWithRole_cong [OF assms]) auto
  show ?thesis
    by (simp add: buildHealerBuffQueue_def buffQueue_by_role_def m r h Let_def)
qed

lemma fst_doHealerHeal: "fst (doHealerHeal w c t) = c"
  by (simp add: doHealerHeal_def Let_def)

lemma doHealerBuff_fields:
  "buffQueue (fst (doHealerBuff w c t)) = buffQueue c"
  "combatStartFrameSeen (fst (doHealerBuff w c t)) = combatStartFrameSeen c"
  "thinkCd (fst (doHealerBuff w c t)) = thinkCd c"
  by (simp_all add: doHealerBuff_def Let_def)

lemma healerIdle_fields:
  "buffQueue (fst (healerIdle w bb c)) = buffQueue c"
  "combatStartFrameSeen (fst (healerIdle w bb c)) = combatStartFrameSeen c"
  "buffedThisCombat (fst (healerIdle w bb c)) = buffedThisCombat c"
  "thinkCd (fst (healerIdle w bb c)) = thinkCd c"
  by (simp_all add: healerIdle_def Let_def split: option.splits)

lemmas healer_frame = fst_doHealerHeal doHealerBuff_fields healerIdle_fields

lemma actHealer_fields:
  assumes "actor_of_controller w c \<noteq> None" "char_of_controller w c \<noteq> None"
  shows "buffQueue (fst (actHealer G w bb c)) = buffQueue (healerCombatWindow G w bb c)"
    and "combatStartFrameSeen (fst (actHealer G w bb c))
         = combatStartFrameSeen (healerCombatWindow G w bb c)"
  using assms by (auto simp: actHealer_def Let_def healer_frame split: option.splits)

lemma healerCombatWindow_ccfg:
  "ccfg (healerCombatWindow G w bb c) = ccfg c"
  "actorId (healerCombatWindow G w bb c) = actorId c"
  "thinkCd (healerCombatWindow G w bb c) = thinkCd c"
  by (simp_all add: healerCombatWindow_def)

lemma char_of_healerCombatWindow:
  "char_of_controller w (healerCombatWindow G w' bb c) = char_of_controller w c"
  "actor_of_controller w (healerCombatWindow G w' bb c) = actor_of_controller w c"
  by (simp_all add: char_of_controller_def actor_of_controller_def healerCombatWindow_ccfg)

lemmas window_simps = healerCombatWindow_ccfg char_of_healerCombatWindow

lemma healerCombatWindow_idem:
  "healerCombatWindow G w bb (healerCombatWindow G w bb c) = healerCombatWindow G w bb c"
  by (simp add: healerCombatWindow_def)

lemma actHealer_window:
  assumes "actor_of_controller w c \<noteq> None" "char_of_controller w c \<noteq> None"
  shows "actHealer G w bb (healerCombatWindow G w bb c) = actHealer G w bb c"
  using assms by (auto simp: actHealer_def healerCombatWindow_idem window_simps)

lemma nextBuff_Some:
  assumes "nextBuff G bb c = Some n"
  shows "n \<in> set (buffQueue c) \<and> n \<notin> buffedThisCombat c"
  using assms
  by (auto simp: nextBuff_def find_Some_iff split: if_splits option.splits)

lemma buffed_doHealerBuff:
  "buffedThisCombat (fst (doHealerBuff w c n)) = buffedThisCombat c
   \<or> buffedThisCombat (fst (doHealerBuff w c n)) = insert n (buffedThisCombat c)"
  by (simp add: doHealerBuff_def Let_def)

lemma actHealer_buffed:
  assumes "actor_of_controller w c \<noteq> None" "char_of_controller w c \<noteq> None"
  shows "buffedThisCombat (fst (actHealer G w bb c))
           = buffedThisCombat (healerCombatWindow G w bb c)
     \<or> (\<exists>n \<in> set (buffQueue (healerCombatWindow G w bb c)).
           n \<notin> buffedThisCombat (healerCombatWindow G w bb c)
           \<and> buffedThisCombat (fst (actHealer G w bb c))
               = insert n (buffedThisCombat (healerCombatWindow G w bb c)))"
proof (cases "nextBuff G bb (healerCombatWindow G w bb c)")
  case None
  with assms show ?thesis
    by (auto simp: actHealer_def Let_def healer_frame split: option.splits)
next
  case (Some n)
  from nextBuff_Some [OF this] buffed_doHealerBuff [of w "healerCombatWindow G w bb c" n]
    Some assms
  show ?thesis
    by (auto simp: actHealer_def Let_def healer_frame split: option.splits)
qed

text \<open>
  In a party whose members all carry one of the four known role strings, the queue
  \<open>buildHealerBuffQueue\<close> returns is the leader, then the MELEE and TANK ids, then the
  RANGED ids, then the HEALER ids, each group in party order with the leader removed.
  While combat is active, the healer's ACT behaviour first replaces its queue by a freshly
  built one and empties its buffed-set if and only if the combat-start frame on the
  Blackboard differs from the one it saw last, which it then records; the rest of the
  behaviour runs on the Controller so prepared, and adds at most one id of the queue to
  the buffed-set.
\<close>

lemma healer_queue_rebuild:
  assumes "knownRoles G w"
    and "actor_of_controller w c \<noteq> None" and "char_of_controller w c \<noteq> None"
    and "combatActive bb"
  shows "buildHealerBuffQueue G w = buffQueue_by_role G w
     \<and> healerCombatWindow G w bb c =
         (if combatStartFrameSeen c \<noteq> combatStartFrame bb
          then c\<lparr>combatStartFrameSeen := combatStartFrame bb, buffedThisCombat := {},
                 buffQueue := buffQueue_by_role G w\<rparr>
          else c)
     \<and> actHealer G w bb c =
         actHealer G w bb
           (if combatStartFrameSeen c \<noteq> combatStartFrame bb
            then c\<lparr>combatStartFrameSeen := combatStartFrame bb, buffedThisCombat := {},
                   buffQueue := buffQueue_by_role G w\<rparr>
            else c)
     \<and> buffQueue (fst (actHealer G w bb c)) =
         (if combatStartFrameSeen c \<noteq> combatStartFrame bb then buffQueue_by_role G w
          else buffQueue c)
     \<and> combatStartFrameSeen (fst (actHealer G w bb c)) = combatStartFrame bb
     \<and> (buffedThisCombat (fst (actHealer G w bb c))
           = (if combatStartFrameSeen c \<noteq> combatStartFrame bb then {}
              else buffedThisCombat c)
         \<or> (\<exists>n \<in> set (buffQueue (fst (actHealer G w bb c))).
               buffedThisCombat (fst (actHealer G w bb c))
                 = insert n (if combatStartFrameSeen c \<noteq> combatStartFrame bb then {}
                             else buffedThisCombat c)))"
proof -
  have win: "healerCombatWindow G w bb c =
         (if combatStartFrameSeen c \<noteq> combatStartFrame bb
          then c\<lparr>combatStartFrameSeen := combatStartFrame bb, buffedThisCombat := {},
                 buffQueue := buffQueue_by_role G w\<rparr>
          else c)"
    using assms(1,4) by (simp add: buildHealerBuffQueue_known healerCombatWindow_def)
  have q: "buffQueue (fst (actHealer G w bb c)) = buffQueue (healerCombatWindow G w bb c)"
    using assms(2,3) by (rule actHealer_fields(1))
  have b: "buffedThisCombat (healerCombatWindow G w bb c)
       = (if combatStartFrameSeen c \<noteq> combatStartFrame bb then {} else buffedThisCombat c)"
    using assms(4) by (simp add: healerCombatWindow_def)
  have idem: "actHealer G w bb c = actHealer G w bb (healerCombatWindow G w bb c)"
    using assms(2,3) by (simp add: actHealer_window)
  have seen: "combatStartFrameSeen (fst (actHealer G w bb c)) = combatStartFrame bb"
    using assms(4) actHealer_fields(2) [OF assms(2,3), of G bb]
    by (simp add: healerCombatWindow_def)
  have bf: "buffedThisCombat (fst (actHealer G w bb c))
           = buffedThisCombat (healerCombatWindow G w bb c)
     \<or> (\<exists>n \<in> set (buffQueue (fst (actHealer G w bb c))).
           buffedThisCombat (fst (actHealer G w bb c))
               = insert n (buffedThisCombat (healerCombatWindow G w bb c)))"
    using actHealer_buffed [OF assms(2,3), of G bb] unfolding q by blast
  have "buildHealerBuffQueue G w = buffQueue_by_role G w"
    using assms(1) by (rule buildHealerBuffQueue_known)
  moreover note win
  moreover from idem have "actHealer G w bb c =
         actHealer G w bb
           (if combatStartFrameSeen c \<noteq> combatStartFrame bb
            then c\<lparr>combatStartFrameSeen := combatStartFrame bb, buffedThisCombat := {},
                   buffQueue := buffQueue_by_role G w\<rparr>
            else c)"
    unfolding win .
  moreover have "buffQueue (fst (actHealer G w bb c)) =
         (if combatStartFrameSeen c \<noteq> combatStartFrame bb then buffQueue_by_role G w
          else buffQueue c)"
    unfolding q win by simp
  moreover note seen
  moreover note bf [unfolded b]
  ultimately show ?thesis by blast
qed

text \<open>
  Leader 1 (MELEE), healer 2, ranged 3 and tank 4, combat started in frame 40: healer 2,
  which has seen no combat start yet, builds the queue [1, 4, 3, 2]; had it already seen
  frame 40, it would keep the queue it has.
\<close>

lemma healer_queue_rebuild_example:
  "knownRoles G0 (scene roster [1, 2, 3, 4] skirmish)
   \<and> actor_of_controller (scene roster [1, 2, 3, 4] skirmish) (agent 2 ''HEALER'' ACT) \<noteq> None
   \<and> char_of_controller (scene roster [1, 2, 3, 4] skirmish) (agent 2 ''HEALER'' ACT) \<noteq> None
   \<and> combatActive (board [7] True 40)
   \<and> buildHealerBuffQueue G0 (scene roster [1, 2, 3, 4] skirmish) = [1, 4, 3, 2]
   \<and> buffQueue (fst (actHealer G0 (scene roster [1, 2, 3, 4] skirmish) (board [7] True 40)
        (agent 2 ''HEALER'' ACT))) = [1, 4, 3, 2]
   \<and> buffQueue (fst (actHealer G0 (scene roster [1, 2, 3, 4] skirmish) (board [7] True 40)
        ((agent 2 ''HEALER'' ACT)\<lparr>combatStartFrameSeen := 40, buffQueue := [1]\<rparr>))) = [1]"
proof -
  have k: "knownRoles G0 (scene roster [1, 2, 3, 4] skirmish)"
    and a: "actor_of_controller (scene roster [1, 2, 3, 4] skirmish) c \<noteq> None"
    and ch: "char_of_controller (scene roster [1, 2, 3, 4] skirmish) c \<noteq> None"
    and b: "combatActive (board [7] True 40)"
    if "actorId c = 2" for c
    using that
    by (simp_all add: scene_simps knownRoles_def roleOfActor_def char_of_controller_def
        actor_of_controller_def)
  have i1: "actorId (agent 2 ''HEALER'' ACT) = 2"
    and i2: "actorId ((agent 2 ''HEALER'' ACT)\<lparr>combatStartFrameSeen := 40, buffQueue := [1]\<rparr>) = 2"
    by (simp_all add: agent_def)
  have q: "buffQueue_by_role G0 (scene roster [1, 2, 3, 4] skirmish) = [1, 4, 3, 2]"
    by (simp add: scene_simps buffQueue_by_role_def idsWithRole_def roleOfActor_def
        leaderId_def)
  note r1 = healer_queue_rebuild [OF k [OF i1] a [OF i1] ch [OF i1] b [OF i1]]
  note r2 = healer_queue_rebuild [OF k [OF i2] a [OF i2] ch [OF i2] b [OF i2]]
  have "buffQueue (fst (actHealer G0 (scene roster [1, 2, 3, 4] skirmish) (board [7] True 40)
        (agent 2 ''HEALER'' ACT))) = buffQueue_by_role G0 (scene roster [1, 2, 3, 4] skirmish)"
    using r1 [THEN conjunct2, THEN conjunct2, THEN conjunct2, THEN conjunct1]
    by (simp add: agent_def board_def)
  also note q
  finally have "buffQueue (fst (actHealer G0 (scene roster [1, 2, 3, 4] skirmish)
        (board [7] True 40) (agent 2 ''HEALER'' ACT))) = [1, 4, 3, 2]" .
  moreover have "buffQueue (fst (actHealer G0 (scene roster [1, 2, 3, 4] skirmish)
        (board [7] True 40)
        ((agent 2 ''HEALER'' ACT)\<lparr>combatStartFrameSeen := 40, buffQueue := [1]\<rparr>))) = [1]"
    using r2 [THEN conjunct2, THEN conjunct2, THEN conjunct2, THEN conjunct1]
    by (simp add: agent_def board_def)
  moreover note r1 [THEN conjunct1, unfolded q]
  ultimately show ?thesis
    using k [OF i1] a [OF i1] ch [OF i1] b [OF i1] by blast
qed

text \<open>
  Claim C3.  The specification, like the comment in \<open>buildHealerBuffQueue\<close> (line 737),
  has the queue end with the other healers, but the last group is filtered against the
  leader only: in the party of leader 1 (MELEE) and healer 2, the queue healer 2 builds,
  and holds after its ACT behaviour in a combat started in frame 40, is [1, 2], its own
  id in the healer group, where the leader followed by the other healers is [1].
\<close>

theorem buildHealerBuffQueue_holds_acting_healer:
  "actorId (agent 2 ''HEALER'' ACT) = 2
   \<and> buildHealerBuffQueue G0 (scene roster [1, 2] skirmish) = [1, 2]
   \<and> buffQueue (fst (actHealer G0 (scene roster [1, 2] skirmish) (board [7] True 40)
        (agent 2 ''HEALER'' ACT))) = [1, 2]
   \<and> spec_buffQueue G0 (scene roster [1, 2] skirmish) 2 = [1]"
  by (simp add: scene_simps buildHealerBuffQueue_def spec_buffQueue_def leaderId_def
      group_melee_def group_ranged_def group_healer_def idsWithRole_def roleOfActor_def
      actHealer_fields healerCombatWindow_def char_of_controller_def
      actor_of_controller_def agent_def)

section \<open>Healer: critical heal\<close>

lemma lowestHpAlly_loop_lowest:
  assumes "lowestHpAlly_loop w ids best = Some (aid, pct)"
  shows "(best = Some (aid, pct)
          \<or> (aid \<in> set ids \<and> (\<exists>a. gameActors w aid = Some a \<and> \<not> isDead a
                \<and> pct = hpRate a * 100)))
     \<and> (\<forall>b. best = Some b \<longrightarrow> pct \<le> snd b)
     \<and> (\<forall>i \<in> set ids. \<forall>a. gameActors w i = Some a \<and> \<not> isDead a \<longrightarrow> pct \<le> hpRate a * 100)"
  using assms
proof (induction ids arbitrary: best)
  case Nil
  then show ?case by simp
next
  case (Cons i ids)
  show ?case
  proof (cases "gameActors w i")
    case None
    with Cons.prems have "lowestHpAlly_loop w ids best = Some (aid, pct)" by simp
    from Cons.IH [OF this] None show ?thesis by auto
  next
    case (Some a)
    show ?thesis
    proof (cases "isDead a")
      case True
      with Some Cons.prems have "lowestHpAlly_loop w ids best = Some (aid, pct)" by simp
      from Cons.IH [OF this] Some True show ?thesis by auto
    next
      case False
      show ?thesis
      proof (cases "case best of None \<Rightarrow> True | Some b \<Rightarrow> hpRate a * 100 < snd b")
        case True
        with Some False Cons.prems
        have "lowestHpAlly_loop w ids (Some (i, hpRate a * 100)) = Some (aid, pct)"
          by (simp add: Let_def)
        from Cons.IH [OF this] Some False True show ?thesis
          by (auto split: option.splits)
      next
        case no: False
        with Some False Cons.prems have "lowestHpAlly_loop w ids best = Some (aid, pct)"
          by (simp add: Let_def)
        from Cons.IH [OF this] Some False no show ?thesis
          by (auto split: option.splits)
      qed
    qed
  qed
qed

text \<open>What \<open>lowestHpAlly\<close> returns is a living party member no living member is below.\<close>

lemma lowestHpAlly_lowest:
  assumes "lowestHpAlly w = Some (aid, pct)"
  shows "aid \<in> set (partyActorIds w)
     \<and> (\<exists>a. gameActors w aid = Some a \<and> \<not> isDead a \<and> pct = hpRate a * 100)
     \<and> (\<forall>i \<in> set (partyActorIds w). \<forall>a. gameActors w i = Some a \<and> \<not> isDead a
           \<longrightarrow> pct \<le> hpRate a * 100)"
  using lowestHpAlly_loop_lowest [OF assms [unfolded lowestHpAlly_def]] by simp

text \<open>
  Claim C4, as amended.  Consider a think of a healer that runs its ACT behaviour: the
  tick is not aborted, the countdown has elapsed, the Controller is in state ACT and its
  character is within leash of the player.  When the living ally with the lowest HP
  percentage (what \<open>lowestHpAlly\<close> returns) is at or below the critical threshold, the
  intents of the think are exactly the heal action on that ally: nothing when neither a
  heal nor an attack tool is configured; one move toward the ally when the ally's
  character is farther away than the preferred range; otherwise the heal tool, when one
  is configured.  The think ends in state ACT and adds nobody to the buffed-set, which is
  the healer's own when the running combat window is the one it saw last and empty
  otherwise.  No assumption is made on the combat flag, the buff window or the buff
  queue, so the heal pre-empts every pending buff.
\<close>

theorem healer_act_critical_heal_preempts_buff:
  assumes "\<not> tickAborts G w c" and "thinkCd c \<le> 0"
    and "state c = ACT" and "Controller_role c = ''HEALER''"
    and "char_of_controller w c = Some uch"
    and "manhattan uch (gamePlayer w) \<le> leash (ccfg c)"
    and "lowestHpAlly w = Some (aid, pct)"
    and "pct \<le> of_int (healerCriticalThreshold G)"
  shows "snd (Controller_update G w bb c) =
           (if toolHeal (ccfg c) = 0 \<and> toolAttack (ccfg c) = 0 then []
            else (case characterForActorId w aid of
                    Some tc \<Rightarrow>
                      if preferredRange (ccfg c) < manhattan uch tc then [MoveToward uch tc]
                      else if 0 < toolHeal (ccfg c) then [UseTool uch (toolHeal (ccfg c)) 1]
                      else []
                  | None \<Rightarrow>
                      if 0 < toolHeal (ccfg c) then [UseTool uch (toolHeal (ccfg c)) 1]
                      else []))
     \<and> state (fst (Controller_update G w bb c)) = ACT
     \<and> buffedThisCombat (fst (Controller_update G w bb c)) =
         (if combatActive bb \<and> combatStartFrameSeen c = combatStartFrame bb
          then buffedThisCombat c else {})"
proof -
  define c3 where "c3 =
     (if \<not> combatActive bb
      then c\<lparr>thinkCd := thinkInterval G, buffedThisCombat := {}, buffQueue := [],
             combatStartFrameSeen := 0\<rparr>
      else c\<lparr>thinkCd := thinkInterval G\<rparr>)"
  have ac: "actor_of_controller w c \<noteq> None" and en: "enabledG G" "enabled (ccfg c)"
    using assms(1) by (simp_all add: tickAborts_def)
  have c3: "ccfg c3 = ccfg c" "actorId c3 = actorId c" "state c3 = ACT"
    "Controller_role c3 = ''HEALER''"
    "char_of_controller w c3 = Some uch" "actor_of_controller w c3 \<noteq> None"
    using assms(3,4,5) ac
    by (simp_all add: c3_def Controller_role_def char_of_controller_def actor_of_controller_def)
  have upd: "Controller_update G w bb c = actHealer G w bb c3"
    using assms(2,5,6) ac en c3(3,4)
    by (auto simp: Controller_update_def think_def Let_def dist_simps c3_def thinkAct_def
        Controller_role_def)
  obtain a where a: "gameActors w aid = Some a"
    using lowestHpAlly_lowest [OF assms(7)] by blast
  have heal: "actHealer G w bb c3 =
      ((healerCombatWindow G w bb c3)\<lparr>state := ACT\<rparr>,
       snd (doHealerHeal w (healerCombatWindow G w bb c3) aid))"
    using c3(5,6) assms(7,8) by (auto simp: actHealer_def Let_def healer_frame)
  have intents: "snd (doHealerHeal w (healerCombatWindow G w bb c3) aid) =
           (if toolHeal (ccfg c) = 0 \<and> toolAttack (ccfg c) = 0 then []
            else (case characterForActorId w aid of
                    Some tc \<Rightarrow>
                      if preferredRange (ccfg c) < manhattan uch tc then [MoveToward uch tc]
                      else if 0 < toolHeal (ccfg c) then [UseTool uch (toolHeal (ccfg c)) 1]
                      else []
                  | None \<Rightarrow>
                      if 0 < toolHeal (ccfg c) then [UseTool uch (toolHeal (ccfg c)) 1]
                      else []))"
    using c3 a
    by (auto simp: doHealerHeal_def Let_def window_simps dist_simps moveToward_def
        tryUseTool_def split: option.splits)
  have buffed: "buffedThisCombat (healerCombatWindow G w bb c3) =
         (if combatActive bb \<and> combatStartFrameSeen c = combatStartFrame bb
          then buffedThisCombat c else {})"
    by (simp add: healerCombatWindow_def c3_def)
  show ?thesis by (simp add: upd heal intents buffed)
qed

text \<open>
  The scenario of the specification: the critical threshold is 35, healer 2 is at 30% HP
  and the leader at 60%.  Combat is active since frame 40, the buff window is open and a
  buff is due (the rebuilt queue offers the leader, who is not buffed yet); the think
  triggers heal tool 12 and marks nobody as buffed.
\<close>

theorem healer_act_critical_heal_preempts_buff_witness:
  "\<not> tickAborts G0 (scene roster_hurt [1, 2, 3] skirmish) (agent 2 ''HEALER'' ACT)
   \<and> thinkCd (agent 2 ''HEALER'' ACT) \<le> 0
   \<and> state (agent 2 ''HEALER'' ACT) = ACT
   \<and> Controller_role (agent 2 ''HEALER'' ACT) = ''HEALER''
   \<and> char_of_controller (scene roster_hurt [1, 2, 3] skirmish) (agent 2 ''HEALER'' ACT)
       = Some (at_tile 1 0)
   \<and> manhattan (at_tile 1 0) (gamePlayer (scene roster_hurt [1, 2, 3] skirmish))
       \<le> leash (ccfg (agent 2 ''HEALER'' ACT))
   \<and> lowestHpAlly (scene roster_hurt [1, 2, 3] skirmish) = Some (2, 30)
   \<and> (30 :: rat) \<le> of_int (healerCriticalThreshold G0)
   \<and> buffDue G0 (scene roster_hurt [1, 2, 3] skirmish) (board [7] True 40)
        (agent 2 ''HEALER'' ACT)
   \<and> snd (Controller_update G0 (scene roster_hurt [1, 2, 3] skirmish) (board [7] True 40)
        (agent 2 ''HEALER'' ACT)) = [UseTool (at_tile 1 0) 12 1]
   \<and> state (fst (Controller_update G0 (scene roster_hurt [1, 2, 3] skirmish)
        (board [7] True 40) (agent 2 ''HEALER'' ACT))) = ACT
   \<and> buffedThisCombat (fst (Controller_update G0 (scene roster_hurt [1, 2, 3] skirmish)
        (board [7] True 40) (agent 2 ''HEALER'' ACT))) = {}"
  using healer_act_critical_heal_preempts_buff
      [of G0 "scene roster_hurt [1, 2, 3] skirmish" "agent 2 ''HEALER'' ACT" "at_tile 1 0"
        2 30 "board [7] True 40"]
  by (simp add: eval_simps tickAborts_def Controller_role_def char_of_controller_def
      actor_of_controller_def manhattan_def lowestHpAlly_def buffDue_def
      buildHealerBuffQueue_def group_melee_def group_ranged_def group_healer_def
      leaderId_def Let_def)

text \<open>
  Claim C4 as stated fails for a think outside the ACT behaviour: with the same ally at
  30% HP, the think of healer 2 in state ACQUIRE only moves the Controller to ACT, and
  its think in state FOLLOW only moves it to ACQUIRE; neither issues an intent, so the
  ally is not healed in that think.
\<close>

theorem healer_think_outside_act_counterexample:
  "lowestHpAlly (scene roster_hurt [1, 2, 3] skirmish) = Some (2, 30)
   \<and> (30 :: rat) \<le> of_int (healerCriticalThreshold G0)
   \<and> Controller_role (agent 2 ''HEALER'' ACQUIRE) = ''HEALER''
   \<and> Controller_update G0 (scene roster_hurt [1, 2, 3] skirmish) (board [7] True 40)
        (agent 2 ''HEALER'' ACQUIRE)
       = ((agent 2 ''HEALER'' ACQUIRE)\<lparr>thinkCd := 8, state := ACT\<rparr>, [])
   \<and> Controller_update G0 (scene roster_hurt [1, 2, 3] skirmish) (board [7] True 40)
        (agent 2 ''HEALER'' FOLLOW)
       = ((agent 2 ''HEALER'' FOLLOW)\<lparr>thinkCd := 8, state := ACQUIRE\<rparr>, [])"
  by (simp add: eval_simps lowestHpAlly_def Controller_role_def Controller_update_def
      char_of_controller_def actor_of_controller_def think_def thinkAcquire_def
      thinkFollow_def agent_def Let_def dist_simps)

section \<open>Think countdown\<close>

lemma thinkFollow_thinkCd: "thinkCd (fst (thinkFollow w bb c)) = thinkCd c"
  by (simp add: thinkFollow_def Let_def)

lemma thinkHold_thinkCd: "thinkCd (fst (thinkHold w bb c)) = thinkCd c"
  by (simp add: thinkHold_def Let_def split: option.splits)

lemma thinkRecover_thinkCd: "thinkCd (fst (thinkRecover w c)) = thinkCd c"
  by (simp add: thinkRecover_def Let_def)

lemma thinkAcquire_thinkCd: "thinkCd (fst (thinkAcquire w bb c)) = thinkCd c"
  by (simp add: thinkAcquire_def Let_def split: option.splits)

lemma actRanged_thinkCd: "thinkCd (fst (actRanged w bb c)) = thinkCd c"
  by (simp add: actRanged_def Let_def split: option.splits)

lemma actMelee_thinkCd: "thinkCd (fst (actMelee w bb c)) = thinkCd c"
  by (simp add: actMelee_def Let_def split: option.splits)

lemma actTank_thinkCd: "thinkCd (fst (actTank G w bb c)) = thinkCd c"
  by (simp add: actTank_def Let_def split: option.splits)

lemma actHealer_thinkCd: "thinkCd (fst (actHealer G w bb c)) = thinkCd c"
  by (simp add: actHealer_def Let_def healer_frame window_simps split: option.splits)

lemma thinkAct_thinkCd: "thinkCd (fst (thinkAct G w bb c)) = thinkCd c"
  by (simp add: thinkAct_def Let_def actRanged_thinkCd actMelee_thinkCd actTank_thinkCd
      actHealer_thinkCd)

lemmas thinkCd_simps = thinkFollow_thinkCd thinkHold_thinkCd thinkRecover_thinkCd
  thinkAcquire_thinkCd thinkAct_thinkCd

lemma think_thinkCd: "thinkCd (fst (think G w bb ch c)) = thinkInterval G"
  by (simp add: think_def Let_def thinkCd_simps split: fsm.splits)

lemma Controller_update_thinkCd:
  "thinkCd (fst (Controller_update G w bb c)) = thinkCd c
   \<or> (0 < thinkCd c \<and> thinkCd (fst (Controller_update G w bb c)) = thinkCd c - 1)
   \<or> (thinkCd c \<le> 0 \<and> thinkCd (fst (Controller_update G w bb c)) = thinkInterval G)"
  by (simp add: Controller_update_def think_thinkCd split: option.splits)

text \<open>
  Claim C5, as amended.  With a think interval of at least 1, the countdown a Controller
  is created with lies in \<open>[0, thinkInterval)\<close> for every random draw in \<open>[0, 1)\<close>, and
  every update keeps the countdown within the closed interval \<open>[0, thinkInterval]\<close>:
  the update that runs the decision logic sets it to \<open>thinkInterval\<close> itself.
\<close>

theorem think_countdown_closed_interval:
  assumes "1 \<le> thinkInterval G"
  shows "(0 \<le> rnd \<and> rnd < 1 \<longrightarrow>
            0 \<le> thinkCd (new_Controller G rnd aid cf)
            \<and> thinkCd (new_Controller G rnd aid cf) < thinkInterval G)
     \<and> (0 \<le> thinkCd c \<and> thinkCd c \<le> thinkInterval G \<longrightarrow>
            0 \<le> thinkCd (fst (Controller_update G w bb c))
            \<and> thinkCd (fst (Controller_update G w bb c)) \<le> thinkInterval G)"
proof -
  have init: "0 \<le> \<lfloor>rnd * of_int (thinkInterval G)\<rfloor>
      \<and> \<lfloor>rnd * of_int (thinkInterval G)\<rfloor> < thinkInterval G"
    if r: "0 \<le> rnd" "rnd < 1"
  proof -
    have pos: "(0::rat) < of_int (thinkInterval G)" using assms by simp
    have "0 \<le> rnd * of_int (thinkInterval G)" using r(1) pos by simp
    moreover have "rnd * of_int (thinkInterval G) < of_int (thinkInterval G)"
      using r(2) pos by simp
    ultimately show ?thesis by (simp add: floor_less_iff)
  qed
  have step: "0 \<le> thinkCd (fst (Controller_update G w bb c))
      \<and> thinkCd (fst (Controller_update G w bb c)) \<le> thinkInterval G"
    if "0 \<le> thinkCd c" "thinkCd c \<le> thinkInterval G"
    using that assms Controller_update_thinkCd [of G w bb c] by auto
  show ?thesis using init step by (simp add: new_Controller_def)
qed

text \<open>
  With interval 8 and the draw 7/8 the countdown starts at 7; an update from 8 gives 7.
\<close>

theorem think_countdown_closed_interval_witness:
  "1 \<le> thinkInterval G0
   \<and> (0 :: rat) \<le> 7 / 8 \<and> (7 / 8 :: rat) < 1
   \<and> thinkCd (new_Controller G0 (7 / 8) 2 (ccfg (agent 2 ''MELEE'' FOLLOW))) = 7
   \<and> 0 \<le> thinkCd ((agent 2 ''MELEE'' FOLLOW)\<lparr>thinkCd := 8\<rparr>)
   \<and> thinkCd ((agent 2 ''MELEE'' FOLLOW)\<lparr>thinkCd := 8\<rparr>) \<le> thinkInterval G0
   \<and> thinkCd (fst (Controller_update G0 (scene roster [1, 2, 3] skirmish) (board [3] False 0)
        ((agent 2 ''MELEE'' FOLLOW)\<lparr>thinkCd := 8\<rparr>))) = 7"
  using think_countdown_closed_interval [of G0 "7 / 8" 2 "ccfg (agent 2 ''MELEE'' FOLLOW)"
      "(agent 2 ''MELEE'' FOLLOW)\<lparr>thinkCd := 8\<rparr>" "scene roster [1, 2, 3] skirmish"
      "board [3] False 0"]
  by (simp add: eval_simps Controller_update_def new_Controller_def)

text \<open>
  Claim C5 as stated fails: with interval 8, a Controller whose countdown is 0 runs its
  decision logic, and its countdown after that update is 8, outside \<open>[0, 8)\<close>.
\<close>

theorem think_countdown_reset_counterexample:
  "0 \<le> thinkCd (agent 2 ''MELEE'' FOLLOW)
   \<and> thinkCd (agent 2 ''MELEE'' FOLLOW) < thinkInterval G0
   \<and> thinkCd (fst (Controller_update G0 (scene roster [1, 2, 3] skirmish) (board [3] False 0)
        (agent 2 ''MELEE'' FOLLOW))) = thinkInterval G0"
  by (simp add: eval_simps Controller_update_def think_def thinkFollow_def Let_def dist_simps)

text \<open>
  Claim C6, as amended.  On a tick on which AI is enabled globally and for the agent and
  the agent's map character and actor resolve, a Controller with a positive countdown
  only decrements it, whatever its FSM state (state, target and healer data stay as they
  are, no intent is issued); with the countdown at zero or below it runs the decision
  logic, after which the countdown is the configured think interval.  On every other tick
  the update is aborted: the Controller, its countdown included, is left unchanged.
\<close>

theorem Controller_update_countdown:
  "(if tickAborts G w c then Controller_update G w bb c = (c, [])
    else if 0 < thinkCd c
    then Controller_update G w bb c = (c\<lparr>thinkCd := thinkCd c - 1\<rparr>, [])
    else (\<exists>ch. char_of_controller w c = Some ch
            \<and> Controller_update G w bb c = think G w bb ch (c\<lparr>thinkCd := thinkCd c - 1\<rparr>))
         \<and> thinkCd (fst (Controller_update G w bb c)) = thinkInterval G)"
  by (auto simp: tickAborts_def Controller_update_def think_thinkCd split: option.splits)

text \<open>
  Member 2 in state ACT with countdown 3: the update gives countdown 2 and nothing else;
  with countdown 0 it thinks and the countdown is 8.  Member 4, whose character does not
  resolve, keeps its countdown 3.
\<close>

theorem Controller_update_countdown_witness:
  "\<not> tickAborts G0 (scene roster [1, 2, 3] skirmish) ((agent 2 ''MELEE'' ACT)\<lparr>thinkCd := 3\<rparr>)
   \<and> Controller_update G0 (scene roster [1, 2, 3] skirmish) (board [3] True 40)
        ((agent 2 ''MELEE'' ACT)\<lparr>thinkCd := 3\<rparr>)
       = ((agent 2 ''MELEE'' ACT)\<lparr>thinkCd := 2\<rparr>, [])
   \<and> thinkCd (fst (Controller_update G0 (scene roster [1, 2, 3] skirmish) (board [3] True 40)
        (agent 2 ''MELEE'' ACT))) = 8
   \<and> tickAborts G0 (scene roster [1, 2, 3, 4] skirmish) ((agent 4 ''TANK'' ACT)\<lparr>thinkCd := 3\<rparr>)
   \<and> Controller_update G0 (scene roster [1, 2, 3, 4] skirmish) (board [3] True 40)
        ((agent 4 ''TANK'' ACT)\<lparr>thinkCd := 3\<rparr>)
       = ((agent 4 ''TANK'' ACT)\<lparr>thinkCd := 3\<rparr>, [])"
  using Controller_update_countdown [of G0 "scene roster [1, 2, 3] skirmish" "(agent 2 ''MELEE'' ACT)\<lparr>thinkCd := 3\<rparr>"
      "board [3] True 40"]
    Controller_update_countdown [of G0 "scene roster [1, 2, 3] skirmish" "agent 2 ''MELEE'' ACT" "board [3] True 40"]
    Controller_update_countdown [of G0 "scene roster [1, 2, 3, 4] skirmish" "(agent 4 ''TANK'' ACT)\<lparr>thinkCd := 3\<rparr>"
      "board [3] True 40"]
  by (simp add: eval_simps tickAborts_def think_thinkCd)

text \<open>
  Claim C6 as stated fails: the map character of member 4 does not resolve, and the update
  of its Controller leaves the countdown at 3 instead of decrementing it.
\<close>

theorem Controller_update_aborted_tick_counterexample:
  "thinkCd ((agent 4 ''TANK'' FOLLOW)\<lparr>thinkCd := 3\<rparr>) = 3
   \<and> thinkCd (fst (Controller_update G0 (scene roster [1, 2, 3, 4] skirmish)
        (board [3] False 0) ((agent 4 ''TANK'' FOLLOW)\<lparr>thinkCd := 3\<rparr>))) = 3"
  by (simp add: eval_simps Controller_update_def)

section \<open>ACT behaviours: intents and next state\<close>

lemma movements_append: "movements (xs @ ys) = movements xs + movements ys"
  by (simp add: movements_def)

lemma abilities_append: "abilities (xs @ ys) = abilities xs + abilities ys"
  by (simp add: abilities_def)

lemma movements_Nil: "movements [] = 0" "abilities [] = 0"
  by (simp_all add: movements_def abilities_def)

lemma count_moveToward:
  "movements (moveToward a b) \<le> Suc 0" "abilities (moveToward a b) = 0"
  "movements (moveToward (Some x) (Some y)) = Suc 0"
  by (simp_all add: moveToward_def movements_def abilities_def split: option.splits)

lemma count_moveAway:
  "movements (moveAway a b) \<le> Suc 0" "abilities (moveAway a b) = 0"
  "movements (moveAway (Some x) (Some y)) = Suc 0"
  by (simp_all add: moveAway_def movements_def abilities_def split: option.splits)

lemma count_sidestep:
  "movements (sidestep a b) \<le> Suc 0" "abilities (sidestep a b) = 0"
  "movements (sidestep (Some x) (Some y)) = Suc 0"
  by (simp_all add: sidestep_def movements_def abilities_def split: option.splits)

lemma count_tryUseTool:
  "movements (tryUseTool a t k) = 0" "abilities (tryUseTool a t k) \<le> Suc 0"
  by (simp_all add: tryUseTool_def movements_def abilities_def split: option.splits)

lemma count_fireAttack:
  "movements (fireAttack a c) = 0" "abilities (fireAttack a c) \<le> Suc 0"
  by (simp_all add: fireAttack_def count_tryUseTool movements_Nil)

lemmas count_simps = movements_append abilities_append movements_Nil count_moveToward
  count_moveAway count_sidestep count_tryUseTool count_fireAttack

lemma actMelee_intents:
  "movements (snd (actMelee w bb c)) \<le> 1 \<and> abilities (snd (actMelee w bb c)) \<le> 1
   \<and> (state (fst (actMelee w bb c)) = ACQUIRE
       \<or> state (fst (actMelee w bb c)) = FOLLOW \<and> snd (actMelee w bb c) = [])"
  by (simp add: actMelee_def Let_def count_simps split: option.splits)

lemma actTank_intents:
  "movements (snd (actTank G w bb c)) \<le> 1 \<and> abilities (snd (actTank G w bb c)) \<le> 1
   \<and> (state (fst (actTank G w bb c)) = ACQUIRE
       \<or> state (fst (actTank G w bb c)) = FOLLOW \<and> snd (actTank G w bb c) = [])"
  by (simp add: actTank_def Let_def count_simps split: option.splits)

lemma actRanged_intents:
  "abilities (snd (actRanged w bb c)) \<le> 1
   \<and> movements (snd (actRanged w bb c)) \<le> 2
   \<and> (\<not> (case targetOrPick w bb c ''RANGED'' of
             None \<Rightarrow> False
           | Some t \<Rightarrow>
               roaEnemyType (mapEvents w t) = Some ''MELEE'' \<and>
               distTiles (char_of_controller w c) (Some (mapEvents w t))
                 \<le> keepDistance (ccfg c))
        \<longrightarrow> movements (snd (actRanged w bb c)) \<le> 1)
   \<and> ((case targetOrPick w bb c ''RANGED'' of
             None \<Rightarrow> False
           | Some t \<Rightarrow>
               roaEnemyType (mapEvents w t) = Some ''MELEE'' \<and>
               distTiles (char_of_controller w c) (Some (mapEvents w t))
                 \<le> keepDistance (ccfg c))
        \<and> char_of_controller w c \<noteq> None
        \<longrightarrow> movements (snd (actRanged w bb c)) = 2)
   \<and> (state (fst (actRanged w bb c)) = ACQUIRE
       \<or> state (fst (actRanged w bb c)) = FOLLOW \<and> snd (actRanged w bb c) = [])"
proof (cases "targetOrPick w bb c ''RANGED''")
  case None
  then show ?thesis by (simp add: actRanged_def count_simps)
next
  case (Some t)
  have "movements (moveAway (char_of_controller w c) (Some (mapEvents w t))
          @ sidestep (char_of_controller w c) (Some (mapEvents w t))) \<le> 2"
    using add_mono [OF count_moveAway(1) [of "char_of_controller w c" "Some (mapEvents w t)"]
        count_sidestep(1) [of "char_of_controller w c" "Some (mapEvents w t)"]]
    by (simp add: count_simps)
  moreover have "movements (moveToward (char_of_controller w c) (Some (mapEvents w t))) \<le> 2"
    by (rule order_trans [OF count_moveToward(1)]) simp
  ultimately show ?thesis using Some
    by (auto simp: actRanged_def Let_def count_simps)
qed

lemma doHealerHeal_intents:
  "movements (snd (doHealerHeal w c t)) \<le> Suc 0"
  "abilities (snd (doHealerHeal w c t)) \<le> Suc 0"
  by (simp_all add: doHealerHeal_def Let_def count_simps)

lemma doHealerBuff_intents:
  "movements (snd (doHealerBuff w c t)) \<le> Suc 0"
  "abilities (snd (doHealerBuff w c t)) \<le> Suc 0"
  by (simp_all add: doHealerBuff_def Let_def count_simps)

lemma healerIdle_intents:
  "movements (snd (healerIdle w bb c)) \<le> Suc 0"
  "abilities (snd (healerIdle w bb c)) \<le> Suc 0"
  by (simp_all add: healerIdle_def Let_def count_simps split: option.splits)

lemma healerIdle_state:
  "state (fst (healerIdle w bb c)) = ACQUIRE \<or> state (fst (healerIdle w bb c)) = ACT"
  by (simp add: healerIdle_def Let_def split: option.splits)

lemma actHealer_intents:
  "movements (snd (actHealer G w bb c)) \<le> 1 \<and> abilities (snd (actHealer G w bb c)) \<le> 1
   \<and> (state (fst (actHealer G w bb c)) = ACQUIRE
       \<or> state (fst (actHealer G w bb c)) = ACT
       \<or> state (fst (actHealer G w bb c)) = FOLLOW \<and> snd (actHealer G w bb c) = [])"
  using healerIdle_state [of w bb "healerCombatWindow G w bb c"]
  by (auto simp: actHealer_def Let_def count_simps doHealerHeal_intents doHealerBuff_intents
      healerIdle_intents split: option.splits)

lemma find_filter:
  "List.find P xs = (case filter P xs of [] \<Rightarrow> None | x # _ \<Rightarrow> Some x)"
  by (induction xs) auto

lemma nextBuff_buffDue:
  "(nextBuff G bb (healerCombatWindow G w bb c) \<noteq> None) = buffDue G w bb c"
proof (cases "combatActive bb \<and> frame bb - combatStartFrame bb \<le> healerBuffWindowFrames G")
  case False
  then show ?thesis by (auto simp: nextBuff_def healerCombatWindow_def buffDue_def)
next
  case True
  show ?thesis
  proof (cases "combatStartFrameSeen c = combatStartFrame bb")
    case same: True
    with True show ?thesis
      by (simp add: nextBuff_def healerCombatWindow_def buffDue_def find_filter Let_def
          split: list.splits)
  next
    case fresh: False
    with True show ?thesis
      by (simp add: nextBuff_def healerCombatWindow_def buffDue_def find_filter Let_def
          split: list.splits)
  qed
qed

lemma defenceDue_find:
  "(List.find (\<lambda>e. distTiles (char_of_controller w c) (Some (mapEvents w e)) \<le> 2) (enemies bb) = None)
     = (\<not> defenceDue w bb c)"
  by (auto simp: defenceDue_def find_None_iff list_ex_iff)

lemma healerIdle_next:
  "state (fst (healerIdle w bb c)) = (if defenceDue w bb c then ACT else ACQUIRE)"
  using defenceDue_find [of w c bb]
  by (auto simp: healerIdle_def Let_def split: option.splits)

lemma defenceDue_window:
  "defenceDue w bb (healerCombatWindow G w' bb' c) = defenceDue w bb c"
  by (simp add: defenceDue_def window_simps)

lemma actHealer_next:
  assumes "Controller_role c = ''HEALER''"
  shows "state (fst (actHealer G w bb c)) = stateAfterAct G w bb c"
proof (cases "actor_of_controller w c = None \<or> char_of_controller w c = None")
  case True
  with assms show ?thesis by (auto simp: actHealer_def stateAfterAct_def)
next
  case False
  show ?thesis
  proof (cases "healDue G w")
    case True
    with False assms show ?thesis
      by (auto simp: actHealer_def stateAfterAct_def healDue_def Let_def healer_frame
          split: option.splits)
  next
    case nh: False
    show ?thesis
    proof (cases "nextBuff G bb (healerCombatWindow G w bb c)")
      case None
      with nextBuff_buffDue [of G bb w c] have "\<not> buffDue G w bb c" by simp
      with None nh False assms show ?thesis
        by (auto simp: actHealer_def stateAfterAct_def healDue_def Let_def healerIdle_next
            defenceDue_window split: option.splits)
    next
      case (Some n)
      with nextBuff_buffDue [of G bb w c] have "buffDue G w bb c" by simp
      with Some nh False assms show ?thesis
        by (auto simp: actHealer_def stateAfterAct_def healDue_def Let_def
            split: option.splits)
    qed
  qed
qed

lemma actRanged_next:
  "state (fst (actRanged w bb c)) = (if targetOrPick w bb c ''RANGED'' \<noteq> None then ACQUIRE else FOLLOW)"
  by (simp add: actRanged_def Let_def split: option.splits)

lemma actMelee_next:
  "state (fst (actMelee w bb c)) = (if targetOrPick w bb c ''MELEE'' \<noteq> None then ACQUIRE else FOLLOW)"
  by (simp add: actMelee_def Let_def split: option.splits)

lemma actTank_next:
  "state (fst (actTank G w bb c)) = (if tankTarget G w bb c \<noteq> None then ACQUIRE else FOLLOW)"
  by (simp add: actTank_def Let_def split: option.splits)

lemma count_fireAttack_Some:
  "abilities (fireAttack (Some x) c) = (if 0 < toolAttack (ccfg c) then 1 else 0)"
  by (simp add: fireAttack_def tryUseTool_def abilities_def)

lemma actMelee_exact:
  assumes "targetOrPick w bb c ''MELEE'' \<noteq> None" "char_of_controller w c \<noteq> None"
  shows "abilities (snd (actMelee w bb c)) = (if 0 < toolAttack (ccfg c) then 1 else 0)"
    and "movements (snd (actMelee w bb c)) = 1"
  using assms
  by (auto simp: actMelee_def Let_def count_simps count_fireAttack_Some)

lemma actTank_exact:
  assumes "tankTarget G w bb c \<noteq> None" "char_of_controller w c \<noteq> None"
  shows "abilities (snd (actTank G w bb c)) = (if 0 < toolAttack (ccfg c) then 1 else 0)"
    and "movements (snd (actTank G w bb c)) = 1"
  using assms
  by (auto simp: actTank_def Let_def count_simps count_fireAttack_Some)

lemma actRanged_exact:
  assumes "targetOrPick w bb c ''RANGED'' \<noteq> None" "char_of_controller w c \<noteq> None"
  shows "abilities (snd (actRanged w bb c)) = (if 0 < toolAttack (ccfg c) then 1 else 0)"
  using assms
  by (auto simp: actRanged_def Let_def count_simps count_fireAttack_Some)

text \<open>
  Claim C7, as amended.  The role behaviour invoked in state ACT issues at most one ability
  intent; it issues at most one movement intent, except for a RANGED agent kiting (its
  target is MELEE-tagged and within keep-away distance), which issues a move-away and a
  sidestep, two movement intents.  The state it leaves the Controller in is
  \<open>stateAfterAct\<close>: for a RANGED, TANK or MELEE agent, ACQUIRE when it had a target to
  act on and FOLLOW when it had none; for a healer, FOLLOW when its actor or character
  does not resolve, ACT when a heal, a buff or self-defence was due, and ACQUIRE
  otherwise.  Whenever the behaviour ends in FOLLOW it has issued no intent.  A RANGED,
  TANK or MELEE agent with a target and a character issues the attack tool if and only if
  one is configured, and a TANK or MELEE agent exactly one movement intent.
\<close>

theorem thinkAct_intents_and_next_state:
  "abilities (snd (thinkAct G w bb c)) \<le> 1
   \<and> movements (snd (thinkAct G w bb c)) \<le> (if kiting w bb c then 2 else 1)
   \<and> (kiting w bb c \<and> char_of_controller w c \<noteq> None
        \<longrightarrow> movements (snd (thinkAct G w bb c)) = 2)
   \<and> state (fst (thinkAct G w bb c)) = stateAfterAct G w bb c
   \<and> (state (fst (thinkAct G w bb c)) = FOLLOW \<longrightarrow> snd (thinkAct G w bb c) = [])
   \<and> (Controller_role c \<noteq> ''HEALER'' \<and> actTargetFound G w bb c
        \<and> char_of_controller w c \<noteq> None
        \<longrightarrow> abilities (snd (thinkAct G w bb c)) = (if 0 < toolAttack (ccfg c) then 1 else 0)
            \<and> (Controller_role c \<noteq> ''RANGED'' \<longrightarrow> movements (snd (thinkAct G w bb c)) = 1))"
proof -
  consider (h) "Controller_role c = ''HEALER''"
    | (r) "Controller_role c \<noteq> ''HEALER''" "Controller_role c = ''RANGED''"
    | (t) "Controller_role c \<noteq> ''HEALER''" "Controller_role c \<noteq> ''RANGED''"
        "Controller_role c = ''TANK''"
    | (m) "Controller_role c \<noteq> ''HEALER''" "Controller_role c \<noteq> ''RANGED''"
        "Controller_role c \<noteq> ''TANK''"
    by blast
  then show ?thesis
  proof cases
    case h
    then have e: "thinkAct G w bb c = actHealer G w bb c" by (simp add: thinkAct_def)
    have "state (fst (actHealer G w bb c)) = FOLLOW \<longrightarrow> snd (actHealer G w bb c) = []"
      using actHealer_intents [of G w bb c] by auto
    with h actHealer_intents [of G w bb c] actHealer_next [OF h, of G w bb]
    show ?thesis by (simp add: e kiting_def)
  next
    case r
    then have e: "thinkAct G w bb c = actRanged w bb c" by (simp add: thinkAct_def)
    have "state (fst (actRanged w bb c)) = FOLLOW \<longrightarrow> snd (actRanged w bb c) = []"
      using actRanged_intents [of w bb c] by auto
    with r actRanged_intents [of w bb c] actRanged_next [of w bb c]
      actRanged_exact [of w bb c]
    show ?thesis by (simp add: e kiting_def stateAfterAct_def actTargetFound_def)
  next
    case t
    then have e: "thinkAct G w bb c = actTank G w bb c" by (simp add: thinkAct_def)
    have "state (fst (actTank G w bb c)) = FOLLOW \<longrightarrow> snd (actTank G w bb c) = []"
      using actTank_intents [of G w bb c] by auto
    with t actTank_intents [of G w bb c] actTank_next [of G w bb c]
      actTank_exact [of G w bb c]
    show ?thesis by (simp add: e kiting_def stateAfterAct_def actTargetFound_def)
  next
    case m
    then have e: "thinkAct G w bb c = actMelee w bb c" by (simp add: thinkAct_def)
    have "state (fst (actMelee w bb c)) = FOLLOW \<longrightarrow> snd (actMelee w bb c) = []"
      using actMelee_intents [of w bb c] by auto
    with m actMelee_intents [of w bb c] actMelee_next [of w bb c]
      actMelee_exact [of w bb c]
    show ?thesis by (simp add: e kiting_def stateAfterAct_def actTargetFound_def)
  qed
qed

text \<open>
  Member 2 as a RANGED agent whose target, the MELEE enemy 3, is one tile away (keep-away
  distance 4) is kiting, issues two movement intents and goes to ACQUIRE.  As a MELEE
  agent it goes to FOLLOW, issuing nothing, when the Blackboard lists no enemy, and with
  enemy 3 listed it issues one movement intent and the attack tool and goes to ACQUIRE.
  As a healer it stays in ACT when it is itself at 30% HP, and goes to ACQUIRE when
  nobody is hurt, combat is not active and the only enemy is seven tiles away.
\<close>

theorem thinkAct_intents_and_next_state_witness:
  "kiting (scene roster [1, 2, 3] skirmish) (board [3] True 40)
        ((agent 2 ''RANGED'' ACT)\<lparr>target := Some 3\<rparr>)
   \<and> char_of_controller (scene roster [1, 2, 3] skirmish)
        ((agent 2 ''RANGED'' ACT)\<lparr>target := Some 3\<rparr>) \<noteq> None
   \<and> movements (snd (thinkAct G0 (scene roster [1, 2, 3] skirmish) (board [3] True 40)
        ((agent 2 ''RANGED'' ACT)\<lparr>target := Some 3\<rparr>))) = 2
   \<and> state (fst (thinkAct G0 (scene roster [1, 2, 3] skirmish) (board [3] True 40)
        ((agent 2 ''RANGED'' ACT)\<lparr>target := Some 3\<rparr>))) = ACQUIRE
   \<and> state (fst (thinkAct G0 (scene roster [1, 2, 3] skirmish) (board [] False 0)
        (agent 2 ''MELEE'' ACT))) = FOLLOW
   \<and> snd (thinkAct G0 (scene roster [1, 2, 3] skirmish) (board [] False 0)
        (agent 2 ''MELEE'' ACT)) = []
   \<and> Controller_role (agent 2 ''MELEE'' ACT) \<noteq> ''HEALER''
   \<and> Controller_role (agent 2 ''MELEE'' ACT) \<noteq> ''RANGED''
   \<and> actTargetFound G0 (scene roster [1, 2, 3] skirmish) (board [3] True 40)
        (agent 2 ''MELEE'' ACT)
   \<and> char_of_controller (scene roster [1, 2, 3] skirmish) (agent 2 ''MELEE'' ACT) \<noteq> None
   \<and> \<not> kiting (scene roster [1, 2, 3] skirmish) (board [3] True 40) (agent 2 ''MELEE'' ACT)
   \<and> movements (snd (thinkAct G0 (scene roster [1, 2, 3] skirmish) (board [3] True 40)
        (agent 2 ''MELEE'' ACT))) = 1
   \<and> abilities (snd (thinkAct G0 (scene roster [1, 2, 3] skirmish) (board [3] True 40)
        (agent 2 ''MELEE'' ACT))) = 1
   \<and> state (fst (thinkAct G0 (scene roster [1, 2, 3] skirmish) (board [3] True 40)
        (agent 2 ''MELEE'' ACT))) = ACQUIRE
   \<and> state (fst (thinkAct G0 (scene roster_hurt [1, 2, 3] skirmish) (board [7] True 40)
        (agent 2 ''HEALER'' ACT))) = ACT
   \<and> state (fst (thinkAct G0 (scene roster [1, 2, 3] skirmish) (board [7] False 0)
        (agent 2 ''HEALER'' ACT))) = ACQUIRE"
  using thinkAct_intents_and_next_state [of G0 "scene roster [1, 2, 3] skirmish" "board [3] True 40"
        "(agent 2 ''RANGED'' ACT)\<lparr>target := Some 3\<rparr>"]
    thinkAct_intents_and_next_state [of G0 "scene roster [1, 2, 3] skirmish" "board [] False 0"
        "agent 2 ''MELEE'' ACT"]
    thinkAct_intents_and_next_state [of G0 "scene roster [1, 2, 3] skirmish" "board [3] True 40"
        "agent 2 ''MELEE'' ACT"]
    thinkAct_intents_and_next_state [of G0 "scene roster_hurt [1, 2, 3] skirmish" "board [7] True 40"
        "agent 2 ''HEALER'' ACT"]
    thinkAct_intents_and_next_state [of G0 "scene roster [1, 2, 3] skirmish" "board [7] False 0"
        "agent 2 ''HEALER'' ACT"]
  by (simp add: eval_simps kiting_def Controller_role_def targetOrPick_def dist_simps
      stateAfterAct_def actTargetFound_def pickTarget_def nearestInPool_def healDue_def
      buffDue_def defenceDue_def lowestHpAlly_def Let_def)

text \<open>
  Claim C7 as stated fails: the RANGED agent above issues a move-away, a sidestep and the
  attack tool, two movement intents in one think; and a healer that heals (healer 2, at
  30% HP) is in ACT after the think, not in ACQUIRE.
\<close>

theorem thinkAct_ranged_kiting_counterexample:
  "state ((agent 2 ''RANGED'' ACT)\<lparr>target := Some 3\<rparr>) = ACT
   \<and> snd (thinkAct G0 (scene roster [1, 2, 3] skirmish) (board [3] True 40)
        ((agent 2 ''RANGED'' ACT)\<lparr>target := Some 3\<rparr>))
       = [MoveAway (at_tile 1 0) (enemy_at 1 1 ''MELEE''),
          Sidestep (at_tile 1 0) (enemy_at 1 1 ''MELEE''),
          UseTool (at_tile 1 0) 5 0]
   \<and> movements (snd (thinkAct G0 (scene roster [1, 2, 3] skirmish) (board [3] True 40)
        ((agent 2 ''RANGED'' ACT)\<lparr>target := Some 3\<rparr>))) = 2
   \<and> state (agent 2 ''HEALER'' ACT) = ACT
   \<and> state (fst (thinkAct G0 (scene roster_hurt [1, 2, 3] skirmish) (board [7] True 40)
        (agent 2 ''HEALER'' ACT))) = ACT"
  by (simp add: eval_simps thinkAct_def Controller_role_def actRanged_def targetOrPick_def
      fireAttack_def moveAway_def sidestep_def tryUseTool_def movements_def Let_def
      actHealer_def lowestHpAlly_def dist_simps healer_frame)

section \<open>Heal and buff execution on an ally without a map character\<close>

text \<open>
  Claim C10.  When the healer's own character and actor resolve and the target actor
  exists but has no map character, \<open>doHealerHeal\<close> with a heal tool configured triggers
  the heal tool at once, and \<open>doHealerBuff\<close> with a buff tool configured triggers the
  buff tool at once and marks the target as buffed; neither issues a movement intent.
\<close>

theorem healer_support_without_target_character:
  assumes "char_of_controller w c = Some uch" and "actor_of_controller w c \<noteq> None"
    and "gameActors w t \<noteq> None" and "characterForActorId w t = None"
  shows "(0 < toolHeal (ccfg c) \<longrightarrow>
            doHealerHeal w c t = (c, [UseTool uch (toolHeal (ccfg c)) 1]))
     \<and> (toolBuff (ccfg c) \<noteq> 0 \<longrightarrow>
            doHealerBuff w c t =
              (c\<lparr>buffedThisCombat := insert t (buffedThisCombat c)\<rparr>,
               [UseTool uch (toolBuff (ccfg c)) 1]))
     \<and> movements (snd (doHealerHeal w c t)) = 0
     \<and> movements (snd (doHealerBuff w c t)) = 0"
  using assms
  by (auto simp: doHealerHeal_def doHealerBuff_def Let_def tryUseTool_def movements_def)

text \<open>
  Healer 2 supporting leader 1, who has no map character in the scene: heal tool 12 and
  buff tool 13 are triggered, and the leader is marked as buffed.
\<close>

theorem healer_support_without_target_character_witness:
  "char_of_controller (scene roster [1, 2, 3] skirmish) (agent 2 ''HEALER'' ACT)
     = Some (at_tile 1 0)
   \<and> actor_of_controller (scene roster [1, 2, 3] skirmish) (agent 2 ''HEALER'' ACT) \<noteq> None
   \<and> gameActors (scene roster [1, 2, 3] skirmish) 1 \<noteq> None
   \<and> characterForActorId (scene roster [1, 2, 3] skirmish) 1 = None
   \<and> 0 < toolHeal (ccfg (agent 2 ''HEALER'' ACT))
   \<and> toolBuff (ccfg (agent 2 ''HEALER'' ACT)) \<noteq> 0
   \<and> doHealerHeal (scene roster [1, 2, 3] skirmish) (agent 2 ''HEALER'' ACT) 1
       = (agent 2 ''HEALER'' ACT, [UseTool (at_tile 1 0) 12 1])
   \<and> snd (doHealerBuff (scene roster [1, 2, 3] skirmish) (agent 2 ''HEALER'' ACT) 1)
       = [UseTool (at_tile 1 0) 13 1]
   \<and> buffedThisCombat
        (fst (doHealerBuff (scene roster [1, 2, 3] skirmish) (agent 2 ''HEALER'' ACT) 1)) = {1}"
  using healer_support_without_target_character [of "scene roster [1, 2, 3] skirmish" "agent 2 ''HEALER'' ACT" "at_tile 1 0" 1]
  by (simp add: eval_simps)

section \<open>Manager: roster synchronization\<close>

lemma sync_actor_created:
  assumes "map_of (sync_actor G w rnd cs i) k \<noteq> None"
  shows "map_of cs k \<noteq> None \<or> (k = i \<and> i \<noteq> leaderId w
     \<and> (case gameActors w i of None \<Rightarrow> False | Some a \<Rightarrow> enabled (actorAiConfig G a)))"
  using assms
  by (auto simp: sync_actor_def Let_def update_conv' delete_conv'
      split: if_splits option.splits)

lemma sync_loop_created:
  assumes "map_of (foldl (sync_actor G w rnd) cs ids) k \<noteq> None"
  shows "map_of cs k \<noteq> None \<or> (k \<in> set ids \<and> k \<noteq> leaderId w
     \<and> (case gameActors w k of None \<Rightarrow> False | Some a \<Rightarrow> enabled (actorAiConfig G a)))"
  using assms
proof (induction ids arbitrary: cs)
  case Nil
  then show ?case by simp
next
  case (Cons i ids)
  from Cons.prems have "map_of (foldl (sync_actor G w rnd) (sync_actor G w rnd cs i) ids) k \<noteq> None"
    by simp
  from Cons.IH [OF this] sync_actor_created [of G w rnd cs i k]
  show ?case by auto
qed

lemma removal_loop_kept:
  assumes "map_of (foldl (\<lambda>cs k. if k \<in> S then cs else AList.delete k cs) cs ks) k' \<noteq> None"
  shows "map_of cs k' \<noteq> None"
  using assms
proof (induction ks arbitrary: cs)
  case Nil
  then show ?case by simp
next
  case (Cons k ks)
  from Cons.prems Cons.IH [of "if k \<in> S then cs else AList.delete k cs"]
  show ?case by (auto simp: delete_conv' split: if_splits)
qed

lemma Manager_sync_created:
  assumes "hasController (Manager_sync G w rnd m) aid" and "\<not> hasController m aid"
  shows "eligible G w aid"
proof (cases "enabledG G")
  case False
  with assms show ?thesis by (simp add: Manager_sync_def)
next
  case True
  with assms(1) have
    "map_of
       (foldl (\<lambda>cs k. if k \<in> set (partyActorIds w) then cs else AList.delete k cs)
          (foldl (sync_actor G w rnd) (controllers m) (partyActorIds w))
          (map fst (foldl (sync_actor G w rnd) (controllers m) (partyActorIds w)))) aid
     \<noteq> None"
    by (simp add: hasController_def Manager_sync_def Let_def)
  from sync_loop_created [OF removal_loop_kept [OF this]] assms(2) show ?thesis
    by (simp add: hasController_def eligible_def)
qed

lemma map_of_map_values:
  "map_of (map (\<lambda>kc. (fst kc, h (snd kc))) cs) k = map_option h (map_of cs k)"
  by (induction cs) auto

lemma Manager_sync_mbb:
  "controllers (Manager_sync G w rnd (m\<lparr>mbb := b\<rparr>)) = controllers (Manager_sync G w rnd m)"
  by (simp add: Manager_sync_def Let_def)

lemma hasController_Manager_update:
  "hasController (fst (Manager_update G w rnd m)) aid
     = hasController (Manager_sync G w rnd m) aid"
proof (cases "enabledG G")
  case False
  then show ?thesis by (simp add: Manager_update_def Manager_sync_def)
next
  case True
  define b where "b = mbb (Manager_sync G w rnd (m\<lparr>mbb := Blackboard_update G w (mbb m)\<rparr>))"
  have "controllers (fst (Manager_update G w rnd m)) =
      map (\<lambda>kc. (fst kc, (\<lambda>c. fst (Controller_update G w b c)) (snd kc)))
        (controllers (Manager_sync G w rnd m))"
    using True by (simp add: Manager_update_def Let_def Manager_sync_mbb o_def b_def)
  then show ?thesis
    using map_of_map_values
      [of "\<lambda>c. fst (Controller_update G w b c)" "controllers (Manager_sync G w rnd m)" aid]
    by (simp add: hasController_def)
qed

text \<open>
  A roster synchronization, alone or as part of a tick, creates no Controller for the
  actor id that leads the party at that moment, whatever the leader's configuration says:
  a leader without a Controller before has none after, and every actor id that has a
  Controller after and had none before is a party member other than the leader whose
  configuration has AI enabled.
\<close>

lemma Manager_sync_creates_only_eligible:
  "(\<not> hasController m (leaderId w) \<longrightarrow>
       \<not> hasController (Manager_sync G w rnd m) (leaderId w)
       \<and> \<not> hasController (fst (Manager_update G w rnd m)) (leaderId w))
   \<and> (\<forall>aid. \<not> hasController m aid \<and> hasController (Manager_sync G w rnd m) aid
          \<longrightarrow> eligible G w aid)
   \<and> (\<forall>aid. \<not> hasController m aid \<and> hasController (fst (Manager_update G w rnd m)) aid
          \<longrightarrow> eligible G w aid)"
proof -
  have "\<not> hasController (Manager_sync G w rnd m) (leaderId w)"
    if "\<not> hasController m (leaderId w)"
    using Manager_sync_created [of G w rnd m "leaderId w"] that
    by (auto simp: eligible_def)
  then show ?thesis
    using Manager_sync_created [of G w rnd m]
    by (auto simp: hasController_Manager_update)
qed

text \<open>
  Leader 1 has AI enabled in its configuration; from the fresh Manager, the
  synchronization and the tick give it no Controller, while member 2 gets one.
\<close>

lemma Manager_sync_creates_only_eligible_example:
  "\<not> hasController new_Manager (leaderId (scene roster_ai [1, 2, 3] skirmish))
   \<and> enabled (actorAiConfig G0 (party_actor True ''MELEE'' 1))
   \<and> gameActors (scene roster_ai [1, 2, 3] skirmish)
        (leaderId (scene roster_ai [1, 2, 3] skirmish)) = Some (party_actor True ''MELEE'' 1)
   \<and> \<not> hasController
        (Manager_sync G0 (scene roster_ai [1, 2, 3] skirmish) (\<lambda>a. 0) new_Manager)
        (leaderId (scene roster_ai [1, 2, 3] skirmish))
   \<and> \<not> hasController
        (fst (Manager_update G0 (scene roster_ai [1, 2, 3] skirmish) (\<lambda>a. 0) new_Manager))
        (leaderId (scene roster_ai [1, 2, 3] skirmish))
   \<and> \<not> hasController new_Manager 2
   \<and> hasController
        (Manager_sync G0 (scene roster_ai [1, 2, 3] skirmish) (\<lambda>a. 0) new_Manager) 2
   \<and> hasController
        (fst (Manager_update G0 (scene roster_ai [1, 2, 3] skirmish) (\<lambda>a. 0) new_Manager)) 2
   \<and> eligible G0 (scene roster_ai [1, 2, 3] skirmish) 2"
  using Manager_sync_creates_only_eligible
      [of new_Manager "scene roster_ai [1, 2, 3] skirmish" G0 "\<lambda>a. 0"]
  by (simp add: hasController_Manager_update)
    (simp add: eval_simps leaderId_def hasController_def new_Manager_def
      Manager_sync_def sync_actor_def new_Controller_def Let_def eligible_def)

text \<open>
  Claim C9.  \<open>Manager.sync\<close> is to hold Controllers for the AI-enabled party members
  other than the leader (comment of line 842), and it deletes the Controller of a member
  whose AI is switched off or who has left the party; but the \<open>continue\<close> of line 846
  skips the leader before any deletion.  Actor 2 gets its Controller while actor 1 leads;
  when the party order becomes [2, 1], the synchronization keeps the Controller of the
  new leader 2, and the next tick steps that Controller (FOLLOW to ACQUIRE, one enemy
  being in aggro range, and the adapter resolving the character of actor 2): the leader
  is AI-driven.
\<close>

theorem Manager_sync_keeps_controller_of_new_leader:
  "leaderId (scene roster_ai [2, 1] skirmish) = 2
   \<and> \<not> hasController new_Manager 2
   \<and> hasController
        (Manager_sync G0 (scene roster_ai [2, 1] skirmish) (\<lambda>a. 0)
           (Manager_sync G0 (scene roster_ai [1, 2] skirmish) (\<lambda>a. 0) new_Manager)) 2
   \<and> map_option state
        (map_of (controllers (fst
           (Manager_update G0 (scene roster_ai [2, 1] (\<lambda>e. enemy_at 3 0 ''MELEE'')) (\<lambda>a. 0)
              (Manager_sync G0 (scene roster_ai [1, 2] skirmish) (\<lambda>a. 0) new_Manager)))) 2)
       = Some ACQUIRE"
  by (simp add: eval_simps leaderId_def hasController_def new_Manager_def new_Blackboard_def
      Manager_sync_def sync_actor_def new_Controller_def Manager_update_def
      Blackboard_update_def Controller_update_def think_def thinkFollow_def Let_def
      dist_simps)

section \<open>Role resolution\<close>

text \<open>
  Where the role goes through \<open>Controller.role\<close> (the ACQUIRE and ACT dispatch and the
  role handed to \<open>pickTarget\<close>) it is one of the four known values, an unknown string
  counting as MELEE; the tank's protected allies are the members whose resolved role is
  RANGED or HEALER, so an unknown string is unprotected there, as MELEE is.
\<close>

lemma Controller_role_known:
  "Controller_role c = ''RANGED'' \<or> Controller_role c = ''MELEE''
   \<or> Controller_role c = ''TANK'' \<or> Controller_role c = ''HEALER''"
  by (simp add: Controller_role_def Let_def)

lemma Controller_role_unknown:
  assumes "rawRole (ccfg c) \<noteq> ''RANGED''" and "rawRole (ccfg c) \<noteq> ''MELEE''"
    and "rawRole (ccfg c) \<noteq> ''TANK''" and "rawRole (ccfg c) \<noteq> ''HEALER''"
  shows "Controller_role c = ''MELEE''"
    and "thinkAct G w bb c = actMelee w bb c"
  using assms by (simp_all add: Controller_role_def thinkAct_def Let_def)

lemma protectedActorIds_resolved:
  "protectedActorIds G w = idsWithRole G w (\<lambda>r. r = ''RANGED'' \<or> r = ''HEALER'')"
  unfolding protectedActorIds_def idsWithRole_def
  by (rule filter_cong [OF refl]) (auto simp: roleOfActor_def Let_def split: option.splits)

text \<open>
  Claim C8.  \<open>Controller.role\<close> resolves the unknown role string WIZARD to MELEE, but
  \<open>buildHealerBuffQueue\<close> reads the raw string and files member 4, tagged WIZARD, with
  the ranged group: in the party of leader 1 (MELEE), healer 2, ranged 3 and member 4 the
  queue is [1, 3, 4, 2], where grouping by the resolved role gives [1, 4, 3, 2].
\<close>

theorem unknown_role_in_buff_queue:
  "Controller_role (agent 4 ''WIZARD'' ACT) = ''MELEE''
   \<and> roleOfActor G0 (party_actor True ''WIZARD'' 1) = ''MELEE''
   \<and> buildHealerBuffQueue G0 (scene roster_wizard [1, 2, 3, 4] skirmish) = [1, 3, 4, 2]
   \<and> buffQueue_by_role G0 (scene roster_wizard [1, 2, 3, 4] skirmish) = [1, 4, 3, 2]"
  by (simp add: eval_simps Controller_role_def roleOfActor_def buildHealerBuffQueue_def
      buffQueue_by_role_def idsWithRole_def group_melee_def group_ranged_def group_healer_def
      leaderId_def)

end
